theory Spec2Isabelle
  imports Main "HOL-Library.AList" "HOL-Library.Sublist"
begin

section \<open>Python values, exceptions and string primitives\<close>

text \<open>
  The service in \<^verbatim>\<open>src/services/ipmi_service.py\<close> is dynamically typed: configuration
  profiles, registries and operation results are all Python dictionaries with string keys.
  They are embedded as values of one datatype. A dictionary is an association list in
  insertion order with pairwise distinct keys; \<open>d[k] = v\<close> is \<open>AList.update\<close>, which keeps
  the position of an existing key and appends a new one, as Python does.
  Strings are lists of characters, one \<open>char\<close> per code point below 256; JSON numbers
  are integers.
\<close>

datatype pyval =
    PNone
  | PBool bool
  | PInt int
  | PStr string
  | PList "pyval list"
  | PDict "(string \<times> pyval) list"

datatype exn =
    KeyError string
  | TypeError string
  | ValueError string
  | AttributeError string
  | StopIteration
  | OSError string
  | TimeoutExpired string
  | Exception string

text \<open>
  \<open>str(e)\<close>; the argument of a \<open>KeyError\<close> is shown as its \<open>repr\<close>. The messages of
  the exceptions that the interpreter and the library raise, not the source, are those of
  CPython 3.11.
\<close>

definition quoted :: "string \<Rightarrow> string" where
  "quoted s = [CHR 0x27] @ s @ [CHR 0x27]"

fun str_exn :: "exn \<Rightarrow> string" where
  "str_exn (KeyError k) = quoted k"
| "str_exn (TypeError m) = m"
| "str_exn (ValueError m) = m"
| "str_exn (AttributeError m) = m"
| "str_exn StopIteration = []"
| "str_exn (OSError m) = m"
| "str_exn (TimeoutExpired m) = m"
| "str_exn (Exception m) = m"

text \<open>The name Python prints for the type of a value, used in interpreter messages.\<close>

fun type_name :: "pyval \<Rightarrow> string" where
  "type_name PNone = ''NoneType''"
| "type_name (PBool _) = ''bool''"
| "type_name (PInt _) = ''int''"
| "type_name (PStr _) = ''str''"
| "type_name (PList _) = ''list''"
| "type_name (PDict _) = ''dict''"

text \<open>Truth value of an object in a condition.\<close>

fun truthy :: "pyval \<Rightarrow> bool" where
  "truthy PNone = False"
| "truthy (PBool b) = b"
| "truthy (PInt i) = (i \<noteq> 0)"
| "truthy (PStr s) = (s \<noteq> [])"
| "truthy (PList xs) = (xs \<noteq> [])"
| "truthy (PDict d) = (d \<noteq> [])"

subsection \<open>Strings\<close>

text \<open>\<open>str.isspace\<close> on code points below 256.\<close>

definition py_isspace :: "char \<Rightarrow> bool" where
  "py_isspace c = ((of_char c :: nat) \<in> {9, 10, 11, 12, 13, 28, 29, 30, 31, 32, 133, 160})"

text \<open>
  \<open>str.lower\<close> on code points below 256: the upper-case letters are \<open>A\<close>..\<open>Z\<close> and
  \<open>0xC0\<close>..\<open>0xDE\<close> without \<open>0xD7\<close>; lower-casing adds \<open>0x20\<close>, that is, sets bit 5.
\<close>

definition py_isupper :: "char \<Rightarrow> bool" where
  "py_isupper c = (let n = (of_char c :: nat) in
     (65 \<le> n \<and> n \<le> 90) \<or> (192 \<le> n \<and> n \<le> 222 \<and> n \<noteq> 215))"

fun set_bit5 :: "char \<Rightarrow> char" where
  "set_bit5 (Char b0 b1 b2 b3 b4 b5 b6 b7) = Char b0 b1 b2 b3 b4 True b6 b7"

definition py_lower_char :: "char \<Rightarrow> char" where
  "py_lower_char c = (if py_isupper c then set_bit5 c else c)"

definition py_lower :: "string \<Rightarrow> string" where
  "py_lower s = map py_lower_char s"

text \<open>\<open>s.strip()\<close>\<close>

definition py_strip :: "string \<Rightarrow> string" where
  "py_strip s = rev (dropWhile py_isspace (rev (dropWhile py_isspace s)))"

text \<open>\<open>s.split(sep)\<close> for a separator of one character: always at least one field.\<close>

fun split_on :: "char \<Rightarrow> string \<Rightarrow> string list" where
  "split_on c [] = [[]]"
| "split_on c (x # xs) =
     (if x = c then [] # split_on c xs
      else (case split_on c xs of [] \<Rightarrow> [[x]] | w # ws \<Rightarrow> (x # w) # ws))"

text \<open>\<open>s.split()\<close>: the maximal runs of non-whitespace characters.\<close>

fun py_split_ws :: "string \<Rightarrow> string list" where
  "py_split_ws [] = []"
| "py_split_ws (x # xs) =
     (if py_isspace x then py_split_ws xs
      else (case xs of
              [] \<Rightarrow> [[x]]
            | y # _ \<Rightarrow>
                if py_isspace y then [x] # py_split_ws xs
                else (case py_split_ws xs of [] \<Rightarrow> [[x]] | w # ws \<Rightarrow> (x # w) # ws)))"

text \<open>\<open>sub in s\<close> for strings.\<close>

fun py_contains :: "string \<Rightarrow> string \<Rightarrow> bool" where
  "py_contains sub [] = (sub = [])"
| "py_contains sub (x # xs) = (prefix sub (x # xs) \<or> py_contains sub xs)"

text \<open>\<open>sep.join(xs)\<close> for a list of strings.\<close>

fun py_join :: "string \<Rightarrow> string list \<Rightarrow> string" where
  "py_join sep [] = []"
| "py_join sep [x] = x"
| "py_join sep (x # y # ys) = x @ sep @ py_join sep (y # ys)"

subsection \<open>Dynamically typed operations\<close>

text \<open>\<open>obj[key]\<close> with a string key.\<close>

fun getitem :: "pyval \<Rightarrow> string \<Rightarrow> exn + pyval" where
  "getitem (PDict d) k = (case map_of d k of None \<Rightarrow> Inl (KeyError k) | Some v \<Rightarrow> Inr v)"
| "getitem (PStr s) k = Inl (TypeError (''string indices must be integers, not '' @ quoted ''str''))"
| "getitem (PList xs) k = Inl (TypeError ''list indices must be integers or slices, not str'')"
| "getitem v k = Inl (TypeError (quoted (type_name v) @ '' object is not subscriptable''))"

text \<open>\<open>key in obj\<close> with a string key.\<close>

fun py_in :: "string \<Rightarrow> pyval \<Rightarrow> exn + bool" where
  "py_in k (PDict d) = Inr (k \<in> set (map fst d))"
| "py_in k (PList xs) = Inr (PStr k \<in> set xs)"
| "py_in k (PStr s) = Inr (py_contains k s)"
| "py_in k v = Inl (TypeError (''argument of type '' @ quoted (type_name v) @ '' is not iterable''))"

text \<open>\<open>obj.get(key, default)\<close>: only dictionaries have the method.\<close>

fun py_get :: "pyval \<Rightarrow> string \<Rightarrow> pyval \<Rightarrow> exn + pyval" where
  "py_get (PDict d) k dflt = Inr (case map_of d k of None \<Rightarrow> dflt | Some v \<Rightarrow> v)"
| "py_get v k dflt =
     Inl (AttributeError (quoted (type_name v) @ '' object has no attribute '' @ quoted ''get''))"

text \<open>The decimal numeral of a natural number, as \<open>str\<close> prints it.\<close>

fun decimal :: "nat \<Rightarrow> string" where
  "decimal n =
     (if n < 10 then [char_of (48 + n)]
      else decimal (n div 10) @ [char_of (48 + n mod 10)])"

text \<open>
  The strings of a list of values, or the first item that is not a string, with its index
  (counted from the given start).
\<close>

fun str_items :: "nat \<Rightarrow> pyval list \<Rightarrow> (nat \<times> pyval) + string list" where
  "str_items i [] = Inr []"
| "str_items i (PStr s # vs) =
     (case str_items (Suc i) vs of Inl bad \<Rightarrow> Inl bad | Inr ss \<Rightarrow> Inr (s # ss))"
| "str_items i (v # vs) = Inl (i, v)"

text \<open>\<open>sep.join(xs)\<close> raises when an item is not a string.\<close>

definition py_join_vals :: "string \<Rightarrow> pyval list \<Rightarrow> exn + string" where
  "py_join_vals sep vs =
     (case str_items 0 vs of
        Inl (i, v) \<Rightarrow>
          Inl (TypeError (''sequence item '' @ decimal i @ '': expected str instance, ''
                 @ type_name v @ '' found''))
      | Inr ss \<Rightarrow> Inr (py_join sep ss))"

section \<open>Configuration and the server registry\<close>

text \<open>
  What \<open>_load_config\<close> reads: the state of the file at the configuration path (absent,
  present but not readable, present with invalid JSON, or parsed to a value) and the
  environment variables, each unset (\<open>None\<close>) or set to a string.
\<close>

datatype config_file = NoFile | Unreadable exn | InvalidJSON | Parsed pyval

record environ =
  IPMI_CONFIG_PATH :: "string option"
  config_file :: config_file
  IPMI_HOSTS :: "string option"
  IPMI_HOST :: "string option"
  IPMI_USER :: "string option"
  IPMI_PASSWORD :: "string option"

text \<open>\<open>os.environ.get(name, default)\<close> and \<open>os.environ.get(name)\<close>\<close>

definition environ_get :: "string option \<Rightarrow> string \<Rightarrow> string" where
  "environ_get v dflt = (case v of None \<Rightarrow> dflt | Some s \<Rightarrow> s)"

definition environ_get_none :: "string option \<Rightarrow> pyval" where
  "environ_get_none v = (case v of None \<Rightarrow> PNone | Some s \<Rightarrow> PStr s)"

text \<open>One iteration of the loop of \<open>_parse_multi_server_env\<close> over the comma-separated entries.\<close>

definition parse_host_config ::
  "environ \<Rightarrow> (string \<times> pyval) list \<Rightarrow> string \<Rightarrow> (string \<times> pyval) list" where
  "parse_host_config env servers host_config =
     (let parts = split_on CHR '':'' (py_strip host_config) in
      if length parts \<ge> 4 then
        AList.update (parts ! 0)
          (PDict [(''hostname'', PStr (parts ! 1)),
                  (''username'', PStr (parts ! 2)),
                  (''password'', PStr (parts ! 3))]) servers
      else if length parts = 2 then
        AList.update (parts ! 0)
          (PDict [(''hostname'', PStr (parts ! 1)),
                  (''username'', PStr (environ_get (IPMI_USER env) ''admin'')),
                  (''password'', PStr (environ_get (IPMI_PASSWORD env) ''admin''))]) servers
      else servers)"

definition parse_multi_server_env :: "environ \<Rightarrow> string \<Rightarrow> (string \<times> pyval) list" where
  "parse_multi_server_env env ipmi_hosts =
     foldl (parse_host_config env) [] (split_on CHR '','' ipmi_hosts)"

text \<open>The loop over the required fields of a single-server file: the first missing one raises.\<close>

fun check_required_fields :: "pyval \<Rightarrow> string list \<Rightarrow> exn + pyval" where
  "check_required_fields config [] = Inr config"
| "check_required_fields config (field # rest) =
     (case py_in field config of
        Inl e \<Rightarrow> Inl e
      | Inr present \<Rightarrow>
          if \<not> present then Inl (ValueError (''Missing required field: '' @ field))
          else check_required_fields config rest)"

definition required_fields :: "string list" where
  "required_fields = [''hostname'', ''username'', ''password'']"

definition the_config_path :: "environ \<Rightarrow> string" where
  "the_config_path env = environ_get (IPMI_CONFIG_PATH env) ''/etc/ipmi/config.json''"

text \<open>\<open>repr\<close> of a list of strings, as the f-string of the error message prints it.\<close>

definition repr_str_list :: "string list \<Rightarrow> string" where
  "repr_str_list xs = ''['' @ py_join '', '' (map quoted xs) @ '']''"

definition load_config :: "environ \<Rightarrow> exn + pyval" where
  "load_config env =
     (case config_file env of
        Parsed config \<Rightarrow>
          (case py_in ''servers'' config of
             Inl e \<Rightarrow> Inl e
           | Inr has_servers \<Rightarrow>
               if has_servers then getitem config ''servers''
               else check_required_fields config required_fields)
      | InvalidJSON \<Rightarrow> Inl (Exception ''Invalid IPMI configuration format'')
      | Unreadable e \<Rightarrow> Inl e
      | NoFile \<Rightarrow>
          (case IPMI_HOSTS env of
             Some (c # cs) \<Rightarrow> Inr (PDict (parse_multi_server_env env (c # cs)))
           | _ \<Rightarrow>
               (let config = [(''hostname'', environ_get_none (IPMI_HOST env)),
                              (''username'', environ_get_none (IPMI_USER env)),
                              (''password'', environ_get_none (IPMI_PASSWORD env))];
                    missing_fields =
                      filter (\<lambda>field. \<not> truthy (case map_of config field of
                                                      None \<Rightarrow> PNone | Some v \<Rightarrow> v))
                        required_fields
                in if missing_fields \<noteq> [] then
                     Inl (Exception (''Missing required environment variables: ''
                        @ repr_str_list missing_fields
                        @ ''. Please set IPMI_HOST, IPMI_USER, and IPMI_PASSWORD environment variables ''
                        @ ''or provide a config file at '' @ the_config_path env))
                   else Inr (PDict config))))"

subsection \<open>The per-server service object\<close>

record service =
  config_path :: string
  server_id :: pyval
  servers_config :: pyval
  config :: pyval

text \<open>\<open>isinstance(self.servers_config, dict) and 'hostname' in self.servers_config\<close>\<close>

fun is_single_server :: "pyval \<Rightarrow> bool" where
  "is_single_server (PDict d) = (''hostname'' \<in> set (map fst d))"
| "is_single_server _ = False"

text \<open>\<open>next(iter(d.keys()))\<close> followed by \<open>d[first_server]\<close>\<close>

fun first_server :: "pyval \<Rightarrow> exn + string \<times> pyval" where
  "first_server (PDict []) = Inl StopIteration"
| "first_server (PDict ((k, v) # _)) = Inr (k, v)"
| "first_server v =
     Inl (AttributeError (quoted (type_name v) @ '' object has no attribute '' @ quoted ''keys''))"

text \<open>
  \<open>IPMIService.__init__(server_id)\<close>: the argument is \<open>None\<close> or a string, and the test
  \<open>if server_id\<close> takes the empty string with \<open>None\<close>.
\<close>

definition IPMIService_init :: "environ \<Rightarrow> string option \<Rightarrow> exn + service" where
  "IPMIService_init env sid =
     (case load_config env of
        Inl e \<Rightarrow> Inl e
      | Inr sc \<Rightarrow>
          (case sid of
             Some (c # cs) \<Rightarrow>
               (case py_in (c # cs) sc of
                  Inl e \<Rightarrow> Inl e
                | Inr found \<Rightarrow>
                    if \<not> found then
                      Inl (ValueError (''Server '' @ quoted (c # cs) @ '' not found in configuration''))
                    else
                      (case getitem sc (c # cs) of
                         Inl e \<Rightarrow> Inl e
                       | Inr cfg \<Rightarrow>
                           Inr \<lparr>config_path = the_config_path env, server_id = PStr (c # cs),
                                servers_config = sc, config = cfg\<rparr>))
           | _ \<Rightarrow>
               if is_single_server sc then
                 Inr \<lparr>config_path = the_config_path env,
                      server_id = (case sid of None \<Rightarrow> PNone | Some s \<Rightarrow> PStr s),
                      servers_config = sc, config = sc\<rparr>
               else
                 (case first_server sc of
                    Inl e \<Rightarrow> Inl e
                  | Inr (k, cfg) \<Rightarrow>
                      Inr \<lparr>config_path = the_config_path env, server_id = PStr k,
                           servers_config = sc, config = cfg\<rparr>)))"

text \<open>\<open>get_available_servers\<close>\<close>

definition get_available_servers :: "service \<Rightarrow> exn + string list" where
  "get_available_servers self =
     (if is_single_server (servers_config self) then Inr [''default'']
      else (case servers_config self of
              PDict d \<Rightarrow> Inr (map fst d)
            | v \<Rightarrow> Inl (AttributeError
                       (quoted (type_name v) @ '' object has no attribute '' @ quoted ''keys''))))"

section \<open>The command runner\<close>

text \<open>
  \<open>subprocess.run\<close> is the only effect of the service. The world it runs in is a
  parameter: a responder that, given the invocations made so far, the argument vector and
  the timeout, says how the process ends (it completes with an exit status and the two
  captured streams, or \<open>subprocess.run\<close> raises). Every function that may start a process
  threads the log of invocations, so that a property can say how often and with which
  arguments the tool was started.
\<close>

datatype proc = Completed int string string | Raises exn

type_synonym invocation = "string list \<times> int"
type_synonym responder = "invocation list \<Rightarrow> string list \<Rightarrow> int \<Rightarrow> proc"
type_synonym 'a io = "invocation list \<Rightarrow> (exn + 'a) \<times> invocation list"

definition returnIO :: "'a \<Rightarrow> 'a io" where
  "returnIO x = (\<lambda>l. (Inr x, l))"

definition liftE :: "exn + 'a \<Rightarrow> 'a io" where
  "liftE r = (\<lambda>l. (r, l))"

definition bindIO :: "'a io \<Rightarrow> ('a \<Rightarrow> 'b io) \<Rightarrow> 'b io" where
  "bindIO m f = (\<lambda>l. case m l of (Inl e, l') \<Rightarrow> (Inl e, l') | (Inr x, l') \<Rightarrow> f x l')"

text \<open>\<open>try: m  except Exception as e: h e\<close>\<close>

definition catchIO :: "'a io \<Rightarrow> (exn \<Rightarrow> 'a io) \<Rightarrow> 'a io" where
  "catchIO m h = (\<lambda>l. case m l of (Inl e, l') \<Rightarrow> h e l' | (Inr x, l') \<Rightarrow> (Inr x, l'))"

text \<open>
  \<open>subprocess.run(cmd, capture_output=True, text=True, timeout=timeout)\<close>: the arguments
  are encoded before any process is started, and an argument that is not a string raises
  there.
\<close>

definition popen_args :: "pyval list \<Rightarrow> exn + string list" where
  "popen_args cmd =
     (case str_items 0 cmd of
        Inl (i, v) \<Rightarrow>
          Inl (TypeError (''expected str, bytes or os.PathLike object, not '' @ type_name v))
      | Inr argv \<Rightarrow> Inr argv)"

definition subprocess_run :: "responder \<Rightarrow> pyval list \<Rightarrow> int \<Rightarrow> (int \<times> string \<times> string) io" where
  "subprocess_run resp cmd timeout = (\<lambda>l.
     case popen_args cmd of
       Inl e \<Rightarrow> (Inl e, l)
     | Inr argv \<Rightarrow>
         (case resp l argv timeout of
            Completed rc out err \<Rightarrow> (Inr (rc, out, err), l @ [(argv, timeout)])
          | Raises e \<Rightarrow> (Inl e, l @ [(argv, timeout)])))"

text \<open>
  The part of the \<open>try\<close> block of \<open>_execute_ipmi_command\<close> before the process is started:
  the three reads of the profile, the two argument vectors, and the log line, whose
  \<open>' '.join(safe_cmd)\<close> raises when host or user is not a string. It yields the host name
  read and the argument vector.
\<close>

definition build_command :: "service \<Rightarrow> string \<Rightarrow> exn + pyval \<times> pyval list" where
  "build_command self command =
     (case getitem (config self) ''hostname'' of
        Inl e \<Rightarrow> Inl e
      | Inr h \<Rightarrow>
     (case getitem (config self) ''username'' of
        Inl e \<Rightarrow> Inl e
      | Inr u \<Rightarrow>
     (case getitem (config self) ''password'' of
        Inl e \<Rightarrow> Inl e
      | Inr p \<Rightarrow>
        (let cmd = [PStr ''ipmitool'', PStr ''-I'', PStr ''lanplus'', PStr ''-H'', h,
                    PStr ''-U'', u, PStr ''-P'', p] @ map PStr (py_split_ws command);
             safe_cmd = [PStr ''ipmitool'', PStr ''-I'', PStr ''lanplus'', PStr ''-H'', h,
                    PStr ''-U'', u, PStr ''-P'', PStr ''[HIDDEN]''] @ map PStr (py_split_ws command)
         in (case py_join_vals '' '' safe_cmd of
               Inl e \<Rightarrow> Inl e
             | Inr _ \<Rightarrow> Inr (h, cmd))))))"

text \<open>
  The two handlers. Each reads \<open>self.config['hostname']\<close> again, for its log line and for
  the result, and that read is outside any \<open>try\<close>.
\<close>

definition on_exception :: "service \<Rightarrow> exn \<Rightarrow> exn + pyval" where
  "on_exception self e =
     (case getitem (config self) ''hostname'' of
        Inl e' \<Rightarrow> Inl e'
      | Inr h \<Rightarrow>
          Inr (PDict [(''success'', PBool False),
                      (''output'', PStr []),
                      (''error'', PStr (case e of TimeoutExpired _ \<Rightarrow> ''Command timed out''
                                           | _ \<Rightarrow> str_exn e)),
                      (''server_id'', server_id self),
                      (''hostname'', h)]))"

definition execute_ipmi_command :: "responder \<Rightarrow> service \<Rightarrow> string \<Rightarrow> int \<Rightarrow> pyval io" where
  "execute_ipmi_command resp self command timeout =
     catchIO
       (bindIO (liftE (build_command self command)) (\<lambda>(h, cmd).
        bindIO (subprocess_run resp cmd timeout) (\<lambda>(returncode, stdout, stderr).
          if returncode = 0 then
            returnIO (PDict [(''success'', PBool True),
                             (''output'', PStr (py_strip stdout)),
                             (''error'', PNone),
                             (''server_id'', server_id self),
                             (''hostname'', h)])
          else
            returnIO (PDict [(''success'', PBool False),
                             (''output'', PStr (py_strip stdout)),
                             (''error'', PStr (py_strip stderr)),
                             (''server_id'', server_id self),
                             (''hostname'', h)]))))
       (\<lambda>e. liftE (on_exception self e))"

section \<open>Server operations\<close>

definition bindE :: "exn + 'a \<Rightarrow> ('a \<Rightarrow> exn + 'b) \<Rightarrow> exn + 'b" where
  "bindE m f = (case m of Inl e \<Rightarrow> Inl e | Inr x \<Rightarrow> f x)"

text \<open>\<open>obj[key] = value\<close>\<close>

fun setitem :: "pyval \<Rightarrow> string \<Rightarrow> pyval \<Rightarrow> exn + pyval" where
  "setitem (PDict d) k v = Inr (PDict (AList.update k v d))"
| "setitem obj k v =
     Inl (TypeError (quoted (type_name obj) @ '' object does not support item assignment''))"

text \<open>The receiver of a call of a string method: any other object has no such attribute.\<close>

fun str_method :: "pyval \<Rightarrow> string \<Rightarrow> exn + string" where
  "str_method (PStr s) m = Inr s"
| "str_method v m =
     Inl (AttributeError (quoted (type_name v) @ '' object has no attribute '' @ quoted m))"

subsection \<open>Power control\<close>

definition power_on :: "responder \<Rightarrow> service \<Rightarrow> pyval io" where
  "power_on resp self = execute_ipmi_command resp self ''chassis power on'' 30"

definition power_off :: "responder \<Rightarrow> service \<Rightarrow> bool \<Rightarrow> pyval io" where
  "power_off resp self force =
     (if force then execute_ipmi_command resp self ''chassis power off'' 30
      else execute_ipmi_command resp self ''chassis power soft'' 30)"

definition power_reset :: "responder \<Rightarrow> service \<Rightarrow> pyval io" where
  "power_reset resp self = execute_ipmi_command resp self ''chassis power reset'' 30"

text \<open>The state derived from the lower-cased output of the power-status command.\<close>

definition power_state_of :: "string \<Rightarrow> string" where
  "power_state_of text =
     (let output = py_lower text in
      if py_contains ''power is on'' output then ''on''
      else if py_contains ''power is off'' output then ''off''
      else ''unknown'')"

definition with_power_state :: "pyval \<Rightarrow> exn + pyval" where
  "with_power_state result =
     bindE (getitem result ''success'') (\<lambda>ok.
       if truthy ok then
         bindE (getitem result ''output'') (\<lambda>out.
         bindE (str_method out ''lower'') (\<lambda>text.
           setitem result ''power_state'' (PStr (power_state_of text))))
       else Inr result)"

definition get_power_status :: "responder \<Rightarrow> service \<Rightarrow> pyval io" where
  "get_power_status resp self =
     bindIO (execute_ipmi_command resp self ''chassis power status'' 30)
       (\<lambda>result. liftE (with_power_state result))"

subsection \<open>System information\<close>

definition system_info_commands :: "(string \<times> string) list" where
  "system_info_commands =
     [(''fru'', ''fru''),
      (''bmc_info'', ''bmc info''),
      (''chassis_status'', ''chassis status''),
      (''system_info'', ''fru print'')]"

fun run_commands ::
  "responder \<Rightarrow> service \<Rightarrow> (string \<times> string) list \<Rightarrow> (string \<times> pyval) list
    \<Rightarrow> (string \<times> pyval) list io" where
  "run_commands resp self [] results = returnIO results"
| "run_commands resp self ((key, cmd) # rest) results =
     bindIO (execute_ipmi_command resp self cmd 30)
       (\<lambda>result. run_commands resp self rest (AList.update key result results))"

text \<open>\<open>all(r['success'] for r in rs)\<close>, which stops at the first false value.\<close>

fun all_success :: "pyval list \<Rightarrow> exn + bool" where
  "all_success [] = Inr True"
| "all_success (r # rs) =
     bindE (getitem r ''success'') (\<lambda>ok. if truthy ok then all_success rs else Inr False)"

definition get_system_info :: "responder \<Rightarrow> service \<Rightarrow> pyval io" where
  "get_system_info resp self =
     bindIO (run_commands resp self system_info_commands []) (\<lambda>results.
       liftE (bindE (all_success (map snd results)) (\<lambda>ok.
              bindE (getitem (config self) ''hostname'') (\<lambda>h.
                Inr (PDict [(''success'', PBool ok),
                            (''system_info'', PDict results),
                            (''server_id'', server_id self),
                            (''hostname'', h)])))))"

subsection \<open>Sensors\<close>

text \<open>\<open>parts[i] if len(parts) > i else ''\<close>\<close>

definition field_or_empty :: "string list \<Rightarrow> nat \<Rightarrow> pyval" where
  "field_or_empty parts i = PStr (if length parts > i then parts ! i else [])"

definition sensor_of_line :: "string \<Rightarrow> pyval list" where
  "sensor_of_line line =
     (if CHR ''|'' \<in> set line then
        (let parts = map py_strip (split_on CHR ''|'' line) in
         if length parts \<ge> 3 then
           [PDict [(''name'', PStr (parts ! 0)),
                   (''value'', PStr (parts ! 1)),
                   (''unit'', field_or_empty parts 2),
                   (''status'', field_or_empty parts 3),
                   (''lower_nr'', field_or_empty parts 4),
                   (''lower_cr'', field_or_empty parts 5),
                   (''lower_nc'', field_or_empty parts 6),
                   (''upper_nc'', field_or_empty parts 7),
                   (''upper_cr'', field_or_empty parts 8),
                   (''upper_nr'', field_or_empty parts 9)]]
         else [])
      else [])"

definition parse_sensor_output :: "string \<Rightarrow> pyval list" where
  "parse_sensor_output output = concat (map sensor_of_line (split_on CHR 0x0A output))"

definition with_sensors :: "pyval \<Rightarrow> exn + pyval" where
  "with_sensors result =
     bindE (getitem result ''success'') (\<lambda>ok.
       if truthy ok then
         bindE (getitem result ''output'') (\<lambda>out.
         bindE (str_method out ''split'') (\<lambda>text.
           (let sensors = parse_sensor_output text in
            bindE (setitem result ''sensors'' (PList sensors)) (\<lambda>result1.
              setitem result1 ''sensor_count'' (PInt (int (length sensors)))))))
       else Inr result)"

definition get_sensor_data :: "responder \<Rightarrow> service \<Rightarrow> pyval io" where
  "get_sensor_data resp self =
     bindIO (execute_ipmi_command resp self ''sensor'' 45)
       (\<lambda>result. liftE (with_sensors result))"

subsection \<open>System event log\<close>

text \<open>
  \<open>xs[:limit]\<close>: \<open>None\<close> keeps the list, a negative bound counts from the end, a
  Boolean is an integer, and any other object raises.
\<close>

fun py_slice_to :: "'a list \<Rightarrow> pyval \<Rightarrow> exn + 'a list" where
  "py_slice_to xs PNone = Inr xs"
| "py_slice_to xs (PInt i) =
     Inr (if 0 \<le> i then take (nat i) xs else take (nat (int (length xs) + i)) xs)"
| "py_slice_to xs (PBool b) = Inr (take (if b then 1 else 0) xs)"
| "py_slice_to xs v =
     Inl (TypeError ''slice indices must be integers or None or have an __index__ method'')"

definition event_of_line :: "string \<Rightarrow> pyval list" where
  "event_of_line line =
     (if py_strip line \<noteq> [] then
        (let parts = map py_strip (split_on CHR ''|'' line) in
         if length parts \<ge> 4 then
           [PDict [(''id'', PStr (parts ! 0)),
                   (''timestamp'', PStr (if length parts > 2 then parts ! 1 @ '' '' @ parts ! 2
                                         else parts ! 1)),
                   (''sensor'', field_or_empty parts 3),
                   (''event'', field_or_empty parts 4),
                   (''value'', field_or_empty parts 5)]]
         else [])
      else [])"

definition parse_sel_output :: "string \<Rightarrow> pyval \<Rightarrow> exn + pyval list" where
  "parse_sel_output output limit =
     bindE (py_slice_to (split_on CHR 0x0A output) limit) (\<lambda>lines.
       Inr (concat (map event_of_line lines)))"

definition with_events :: "pyval \<Rightarrow> pyval \<Rightarrow> exn + pyval" where
  "with_events limit result =
     bindE (getitem result ''success'') (\<lambda>ok.
       if truthy ok then
         bindE (getitem result ''output'') (\<lambda>out.
         bindE (str_method out ''split'') (\<lambda>text.
         bindE (parse_sel_output text limit) (\<lambda>events.
         bindE (setitem result ''events'' (PList events)) (\<lambda>result1.
           setitem result1 ''event_count'' (PInt (int (length events)))))))
       else Inr result)"

definition get_system_event_log :: "responder \<Rightarrow> service \<Rightarrow> pyval \<Rightarrow> pyval io" where
  "get_system_event_log resp self limit =
     bindIO (execute_ipmi_command resp self ''sel list'' 30)
       (\<lambda>result. liftE (with_events limit result))"

definition clear_system_event_log :: "responder \<Rightarrow> service \<Rightarrow> pyval io" where
  "clear_system_event_log resp self = execute_ipmi_command resp self ''sel clear'' 30"

definition get_sel_info :: "responder \<Rightarrow> service \<Rightarrow> pyval io" where
  "get_sel_info resp self = execute_ipmi_command resp self ''sel info'' 30"

subsection \<open>Boot device\<close>

definition valid_devices :: "string list" where
  "valid_devices = [''pxe'', ''disk'', ''cdrom'', ''bios'', ''floppy'', ''safe'']"

definition set_boot_device :: "responder \<Rightarrow> service \<Rightarrow> string \<Rightarrow> bool \<Rightarrow> pyval io" where
  "set_boot_device resp self device persistent =
     (if py_lower device \<notin> set valid_devices then
        liftE (bindE (getitem (config self) ''hostname'') (\<lambda>h.
          Inr (PDict [(''success'', PBool False),
                      (''error'', PStr (''Invalid boot device '' @ quoted device
                          @ ''. Valid options: '' @ py_join '', '' valid_devices)),
                      (''server_id'', server_id self),
                      (''hostname'', h)])))
      else
        (let options = (if persistent then ''options=persistent'' else ''options=efiboot'')
         in execute_ipmi_command resp self
              (''chassis bootdev '' @ device @ '' '' @ options) 30))"

text \<open>
  One line of the parameter dump: \<open>line.split(':', 1)\<close> cuts at the first colon; the key
  is stripped, lower-cased, and its spaces become underscores.
\<close>

definition boot_info_line :: "(string \<times> pyval) list \<Rightarrow> string \<Rightarrow> (string \<times> pyval) list" where
  "boot_info_line boot_info line =
     (if CHR '':'' \<in> set line then
        (let key = takeWhile (\<lambda>c. c \<noteq> CHR '':'') line;
             val = tl (dropWhile (\<lambda>c. c \<noteq> CHR '':'') line)
         in AList.update
              (map (\<lambda>c. if c = CHR '' '' then CHR ''_'' else c) (py_lower (py_strip key)))
              (PStr (py_strip val)) boot_info)
      else boot_info)"

definition parse_boot_device_output :: "string \<Rightarrow> (string \<times> pyval) list" where
  "parse_boot_device_output output = foldl boot_info_line [] (split_on CHR 0x0A output)"

definition with_boot_device :: "pyval \<Rightarrow> exn + pyval" where
  "with_boot_device result =
     bindE (getitem result ''success'') (\<lambda>ok.
       if truthy ok then
         bindE (getitem result ''output'') (\<lambda>out.
         bindE (str_method out ''split'') (\<lambda>text.
           setitem result ''boot_device'' (PDict (parse_boot_device_output text))))
       else Inr result)"

definition get_boot_device :: "responder \<Rightarrow> service \<Rightarrow> pyval io" where
  "get_boot_device resp self =
     bindIO (execute_ipmi_command resp self ''chassis bootparam get 5'' 30)
       (\<lambda>result. liftE (with_boot_device result))"

subsection \<open>Health\<close>

definition health_details :: "service \<Rightarrow> pyval \<Rightarrow> exn + (string \<times> pyval) list" where
  "health_details self result =
     bindE (getitem result ''output'') (\<lambda>out.
     bindE (getitem (config self) ''hostname'') (\<lambda>h.
       Inr [(''ipmi_connection'', PStr ''healthy''),
            (''chassis_status'', out),
            (''server_id'', server_id self),
            (''hostname'', h)]))"

definition with_power_status ::
  "(string \<times> pyval) list \<Rightarrow> pyval \<Rightarrow> exn + (string \<times> pyval) list" where
  "with_power_status details power_result =
     bindE (getitem power_result ''success'') (\<lambda>ok.
       if truthy ok then
         bindE (getitem power_result ''power_state'') (\<lambda>st.
           Inr (AList.update ''power_status'' st details))
       else Inr details)"

definition health_failure :: "service \<Rightarrow> pyval \<Rightarrow> exn + pyval" where
  "health_failure self err =
     bindE (getitem (config self) ''hostname'') (\<lambda>h.
       Inr (PDict [(''success'', PBool False),
                   (''error'', err),
                   (''server_id'', server_id self),
                   (''hostname'', h)]))"

definition check_health :: "responder \<Rightarrow> service \<Rightarrow> pyval io" where
  "check_health resp self =
     catchIO
       (bindIO (execute_ipmi_command resp self ''chassis status'' 30) (\<lambda>result.
        bindIO (liftE (getitem result ''success'')) (\<lambda>ok.
          if truthy ok then
            bindIO (liftE (health_details self result)) (\<lambda>details.
            bindIO (get_power_status resp self) (\<lambda>power_result.
            bindIO (liftE (with_power_status details power_result)) (\<lambda>details1.
              returnIO (PDict [(''success'', PBool True), (''details'', PDict details1)]))))
          else
            liftE (bindE (getitem result ''error'') (health_failure self)))))
       (\<lambda>e. liftE (health_failure self (PStr (str_exn e))))"

subsection \<open>Legacy names\<close>

definition start_server :: "responder \<Rightarrow> service \<Rightarrow> pyval io" where
  "start_server resp self = power_on resp self"

definition stop_server :: "responder \<Rightarrow> service \<Rightarrow> pyval io" where
  "stop_server resp self = power_off resp self False"

definition check_status :: "responder \<Rightarrow> service \<Rightarrow> pyval io" where
  "check_status resp self = get_power_status resp self"

section \<open>Fleet dispatch\<close>

text \<open>
  \<open>execute_on_all_servers\<close> finds the operation by name with \<open>hasattr\<close> and \<open>getattr\<close>
  and calls it with the keyword arguments it was given. The public attributes of a
  service object are the methods below and the four fields set by the constructor; calling
  a method binds the keyword arguments to its parameters first, and calling a field raises.
  Names that begin with an underscore (the private helpers of the class and the special
  attributes every object has) are not operations the dispatcher is used with: what
  \<open>getattr\<close> finds for them is a parameter \<open>other\<close> of the model.
\<close>

type_synonym kwargs = "(string \<times> pyval) list"

text \<open>
  The first keyword that is not a parameter of the method; the keyword \<open>self\<close> clashes
  with the receiver, which is bound already.
\<close>

definition unexpected_keyword :: "string list \<Rightarrow> kwargs \<Rightarrow> string option" where
  "unexpected_keyword params kw = find (\<lambda>k. k \<notin> set params) (map fst kw)"

definition call_method :: "string \<Rightarrow> string list \<Rightarrow> kwargs \<Rightarrow> pyval io \<Rightarrow> pyval io" where
  "call_method name params kw body =
     (case unexpected_keyword params kw of
        Some k \<Rightarrow>
          liftE (Inl (TypeError (''IPMIService.'' @ name
                   @ (if k = ''self'' then ''() got multiple values for argument ''
                      else ''() got an unexpected keyword argument '')
                   @ quoted k)))
      | None \<Rightarrow> body)"

text \<open>\<open>kwargs.get(name, default)\<close>: the value a parameter with a default is bound to.\<close>

definition kwarg :: "kwargs \<Rightarrow> string \<Rightarrow> pyval \<Rightarrow> pyval" where
  "kwarg kw name dflt = (case map_of kw name of None \<Rightarrow> dflt | Some v \<Rightarrow> v)"

definition call_set_boot_device :: "responder \<Rightarrow> service \<Rightarrow> kwargs \<Rightarrow> pyval io" where
  "call_set_boot_device resp self kw =
     (case map_of kw ''device'' of
        None \<Rightarrow>
          liftE (Inl (TypeError (''IPMIService.set_boot_device() missing 1 required ''
                   @ ''positional argument: '' @ quoted ''device'')))
      | Some d \<Rightarrow>
          bindIO (liftE (str_method d ''lower'')) (\<lambda>device.
            set_boot_device resp self device (truthy (kwarg kw ''persistent'' (PBool False)))))"

definition call_field :: "pyval \<Rightarrow> pyval io" where
  "call_field v = liftE (Inl (TypeError (quoted (type_name v) @ '' object is not callable'')))"

definition public_methods :: "responder \<Rightarrow> service \<Rightarrow> (string \<times> (kwargs \<Rightarrow> pyval io)) list" where
  "public_methods resp self =
     [(''get_available_servers'', \<lambda>kw. call_method ''get_available_servers'' [] kw
          (liftE (bindE (get_available_servers self) (\<lambda>ids. Inr (PList (map PStr ids)))))),
      (''power_on'', \<lambda>kw. call_method ''power_on'' [] kw (power_on resp self)),
      (''power_off'', \<lambda>kw. call_method ''power_off'' [''force''] kw
          (power_off resp self (truthy (kwarg kw ''force'' (PBool False))))),
      (''power_reset'', \<lambda>kw. call_method ''power_reset'' [] kw (power_reset resp self)),
      (''get_power_status'', \<lambda>kw. call_method ''get_power_status'' [] kw
          (get_power_status resp self)),
      (''get_system_info'', \<lambda>kw. call_method ''get_system_info'' [] kw
          (get_system_info resp self)),
      (''get_sensor_data'', \<lambda>kw. call_method ''get_sensor_data'' [] kw
          (get_sensor_data resp self)),
      (''get_system_event_log'', \<lambda>kw. call_method ''get_system_event_log'' [''limit''] kw
          (get_system_event_log resp self (kwarg kw ''limit'' (PInt 50)))),
      (''clear_system_event_log'', \<lambda>kw. call_method ''clear_system_event_log'' [] kw
          (clear_system_event_log resp self)),
      (''get_sel_info'', \<lambda>kw. call_method ''get_sel_info'' [] kw (get_sel_info resp self)),
      (''set_boot_device'', \<lambda>kw. call_method ''set_boot_device'' [''device'', ''persistent''] kw
          (call_set_boot_device resp self kw)),
      (''get_boot_device'', \<lambda>kw. call_method ''get_boot_device'' [] kw
          (get_boot_device resp self)),
      (''check_health'', \<lambda>kw. call_method ''check_health'' [] kw (check_health resp self)),
      (''start_server'', \<lambda>kw. call_method ''start_server'' [''ip_address''] kw
          (start_server resp self)),
      (''stop_server'', \<lambda>kw. call_method ''stop_server'' [''ip_address''] kw
          (stop_server resp self)),
      (''check_status'', \<lambda>kw. call_method ''check_status'' [''ip_address''] kw
          (check_status resp self))]"

definition public_fields :: "service \<Rightarrow> (string \<times> (kwargs \<Rightarrow> pyval io)) list" where
  "public_fields self =
     [(''config_path'', \<lambda>kw. call_field (PStr (config_path self))),
      (''server_id'', \<lambda>kw. call_field (server_id self)),
      (''servers_config'', \<lambda>kw. call_field (servers_config self)),
      (''config'', \<lambda>kw. call_field (config self))]"

type_synonym other_attrs = "service \<Rightarrow> string \<Rightarrow> (kwargs \<Rightarrow> pyval io) option"

text \<open>\<open>getattr(service, operation)\<close> where \<open>hasattr(service, operation)\<close>, else \<open>None\<close>.\<close>

definition find_attr ::
  "responder \<Rightarrow> other_attrs \<Rightarrow> service \<Rightarrow> string \<Rightarrow> (kwargs \<Rightarrow> pyval io) option" where
  "find_attr resp other self operation =
     (case operation of
        c # cs \<Rightarrow>
          if c = CHR ''_'' then other self operation
          else map_of (public_methods resp self @ public_fields self) operation
      | [] \<Rightarrow> None)"

record multi_service =
  base_service :: service
  servers :: "string list"

definition MultiServerIPMIService_init :: "environ \<Rightarrow> exn + multi_service" where
  "MultiServerIPMIService_init env =
     bindE (IPMIService_init env None) (\<lambda>base.
     bindE (get_available_servers base) (\<lambda>ids.
       Inr \<lparr>base_service = base, servers = ids\<rparr>))"

text \<open>The body of the \<open>try\<close> for one server, and the handler of \<open>except Exception\<close>.\<close>

definition dispatch_one ::
  "responder \<Rightarrow> environ \<Rightarrow> other_attrs \<Rightarrow> string \<Rightarrow> kwargs \<Rightarrow> string \<Rightarrow> pyval io" where
  "dispatch_one resp env other operation kw sid =
     bindIO (liftE (IPMIService_init env (Some sid))) (\<lambda>svc.
       case find_attr resp other svc operation of
         Some method \<Rightarrow> method kw
       | None \<Rightarrow>
           returnIO (PDict [(''success'', PBool False),
                            (''error'', PStr (''Operation '' @ quoted operation @ '' not supported'')),
                            (''server_id'', PStr sid)]))"

definition dispatch_failed :: "string \<Rightarrow> exn \<Rightarrow> pyval" where
  "dispatch_failed sid e =
     PDict [(''success'', PBool False), (''error'', PStr (str_exn e)), (''server_id'', PStr sid)]"

fun dispatch_all ::
  "responder \<Rightarrow> environ \<Rightarrow> other_attrs \<Rightarrow> string \<Rightarrow> kwargs \<Rightarrow> string list
    \<Rightarrow> (string \<times> pyval) list \<Rightarrow> (string \<times> pyval) list io" where
  "dispatch_all resp env other operation kw [] results = returnIO results"
| "dispatch_all resp env other operation kw (sid # rest) results =
     bindIO (catchIO (dispatch_one resp env other operation kw sid)
                     (\<lambda>e. returnIO (dispatch_failed sid e)))
       (\<lambda>r. dispatch_all resp env other operation kw rest (AList.update sid r results))"

text \<open>\<open>sum(1 for r in results.values() if r.get('success', False))\<close>\<close>

fun count_successful :: "pyval list \<Rightarrow> exn + int" where
  "count_successful [] = Inr 0"
| "count_successful (r # rs) =
     bindE (py_get r ''success'' (PBool False)) (\<lambda>ok.
     bindE (count_successful rs) (\<lambda>n. Inr ((if truthy ok then 1 else 0) + n)))"

text \<open>
  \<open>execute_on_all_servers(self, operation, **kwargs)\<close>: a keyword named as one of the two
  parameters clashes with the argument bound already, and the call raises before the body
  runs.
\<close>

definition execute_on_all_servers ::
  "responder \<Rightarrow> environ \<Rightarrow> other_attrs \<Rightarrow> multi_service \<Rightarrow> string \<Rightarrow> kwargs \<Rightarrow> pyval io" where
  "execute_on_all_servers resp env other ms operation kw =
     (case find (\<lambda>k. k \<in> {''self'', ''operation''}) (map fst kw) of
        Some k \<Rightarrow>
          liftE (Inl (TypeError (''MultiServerIPMIService.execute_on_all_servers() got ''
                   @ ''multiple values for argument '' @ quoted k)))
      | None \<Rightarrow>
          bindIO (dispatch_all resp env other operation kw (servers ms) []) (\<lambda>results.
            liftE (bindE (count_successful (map snd results)) (\<lambda>n.
              Inr (PDict [(''operation'', PStr operation),
                          (''total_servers'', PInt (int (length (servers ms)))),
                          (''successful'', PInt n),
                          (''results'', PDict results)])))))"

definition get_servers_status ::
  "responder \<Rightarrow> environ \<Rightarrow> other_attrs \<Rightarrow> multi_service \<Rightarrow> pyval io" where
  "get_servers_status resp env other ms =
     execute_on_all_servers resp env other ms ''get_power_status'' []"

section \<open>Notions of the specification\<close>


text \<open>
  The CommandResult of the specification, as the dictionary the runner builds: success
  flag, output, error, and the server id and host name of the service.
\<close>

definition command_result :: "service \<Rightarrow> pyval \<Rightarrow> bool \<Rightarrow> string \<Rightarrow> pyval \<Rightarrow> pyval" where
  "command_result self h ok out err =
     PDict [(''success'', PBool ok), (''output'', PStr out), (''error'', err),
            (''server_id'', server_id self), (''hostname'', h)]"

text \<open>The argument vector of the external tool for a profile and an argument string.\<close>

definition ipmitool_argv :: "string \<Rightarrow> string \<Rightarrow> string \<Rightarrow> string \<Rightarrow> string list" where
  "ipmitool_argv h u p command =
     [''ipmitool'', ''-I'', ''lanplus'', ''-H'', h, ''-U'', u, ''-P'', p] @ py_split_ws command"


text \<open>A result mapping contains a field.\<close>

fun has_key :: "pyval \<Rightarrow> string \<Rightarrow> bool" where
  "has_key (PDict d) k = (k \<in> set (map fst d))"
| "has_key _ k = False"

text \<open>A result reports success.\<close>

definition succeeded :: "pyval \<Rightarrow> bool" where
  "succeeded r = (getitem r ''success'' = Inr (PBool True))"

text \<open>
  What one entry of the multi-server environment value contributes to the registry: an
  entry of at least four colon-separated parts gives its first four parts as id, host,
  user and password; an entry of exactly two parts gives id and host, with the credentials
  of the single-server variables or \<open>admin\<close>; any other entry gives nothing.
\<close>

definition entry_of :: "environ \<Rightarrow> string \<Rightarrow> (string \<times> pyval) option" where
  "entry_of env host_config =
     (case split_on CHR '':'' (py_strip host_config) of
        sid # host # user # pass # _ \<Rightarrow>
          Some (sid, PDict [(''hostname'', PStr host), (''username'', PStr user),
                            (''password'', PStr pass)])
      | [sid, host] \<Rightarrow>
          Some (sid, PDict [(''hostname'', PStr host),
                            (''username'', PStr (environ_get (IPMI_USER env) ''admin'')),
                            (''password'', PStr (environ_get (IPMI_PASSWORD env) ''admin''))])
      | _ \<Rightarrow> None)"

text \<open>
  The lines of an event-log dump that yield an entry: not blank, and at least four fields
  between the bars; and the entry such a line yields.
\<close>

definition is_sel_line :: "string \<Rightarrow> bool" where
  "is_sel_line line = (py_strip line \<noteq> [] \<and> 4 \<le> length (split_on CHR ''|'' line))"

definition sel_entry :: "string \<Rightarrow> pyval" where
  "sel_entry line =
     (let parts = map py_strip (split_on CHR ''|'' line) in
      PDict [(''id'', PStr (parts ! 0)),
             (''timestamp'', PStr (parts ! 1 @ '' '' @ parts ! 2)),
             (''sensor'', PStr (parts ! 3)),
             (''event'', PStr (if 4 < length parts then parts ! 4 else [])),
             (''value'', PStr (if 5 < length parts then parts ! 5 else []))])"

text \<open>The first \<open>n\<close> raw lines of a text; none when \<open>n\<close> is not positive.\<close>

definition first_lines :: "int \<Rightarrow> string \<Rightarrow> string list" where
  "first_lines n text = take (nat n) (split_on CHR 0x0A text)"

text \<open>A value has the shape of an operation result: a mapping that starts with a Boolean
  success flag.\<close>

definition is_result :: "pyval \<Rightarrow> bool" where
  "is_result r = (\<exists>b d. r = PDict ((''success'', PBool b) # d))"

text \<open>A result can be attributed: it carries the server id and the host name.\<close>

definition attributed :: "pyval \<Rightarrow> bool" where
  "attributed r = (has_key r ''server_id'' \<and> has_key r ''hostname'')"

text \<open>An operation, started at a log of invocations, returns a result with a property.\<close>

definition returns :: "pyval io \<Rightarrow> invocation list \<Rightarrow> (pyval \<Rightarrow> bool) \<Rightarrow> bool" where
  "returns m l P = (\<exists>r l'. m l = (Inr r, l') \<and> P r)"

text \<open>
  A health result: a success is the mapping of \<open>success\<close> and \<open>details\<close> alone and carries
  id and host name in its details; a failure carries them at the top level.
\<close>

definition health_attributed :: "pyval \<Rightarrow> bool" where
  "health_attributed r =
     (if succeeded r
      then (\<exists>d. r = PDict [(''success'', PBool True), (''details'', d)] \<and> attributed d)
      else attributed r)"






text \<open>The success flag of a per-server result is true: \<open>r.get('success', False)\<close> is truthy.\<close>

definition flagged :: "pyval \<Rightarrow> bool" where
  "flagged r =
     (case r of
        PDict d \<Rightarrow> truthy (case map_of d ''success'' of None \<Rightarrow> PBool False | Some v \<Rightarrow> v)
      | _ \<Rightarrow> False)"





section \<open>Example inputs\<close>

definition example_profile :: pyval where
  "example_profile =
     PDict [(''hostname'', PStr ''10.0.0.5''), (''username'', PStr ''admin''),
            (''password'', PStr ''secret'')]"

definition example_service :: service where
  "example_service =
     \<lparr>config_path = ''/etc/ipmi/config.json'', server_id = PStr ''s1'',
      servers_config = PDict [(''s1'', example_profile)], config = example_profile\<rparr>"

text \<open>A tool that always exits with status 0 and prints a power-on status line.\<close>

definition responder_ok :: responder where
  "responder_ok l argv timeout = Completed 0 (''Chassis Power is on'' @ [CHR 0x0A]) []"


text \<open>A tool that fails for the controller-info command only.\<close>

definition responder_bmc_down :: responder where
  "responder_bmc_down l argv timeout =
     (if ''bmc'' \<in> set argv then Completed 1 [] ''Get Device ID command failed''
      else Completed 0 ''ok'' [])"

text \<open>Single-server configurations: by the three environment values, and by a file.\<close>

definition env_single :: environ where
  "env_single =
     \<lparr>IPMI_CONFIG_PATH = None, config_file = NoFile, IPMI_HOSTS = None,
      IPMI_HOST = Some ''10.0.0.5'', IPMI_USER = Some ''admin'',
      IPMI_PASSWORD = Some ''secret''\<rparr>"

definition env_single_file :: environ where
  "env_single_file =
     \<lparr>IPMI_CONFIG_PATH = None, config_file = Parsed example_profile, IPMI_HOSTS = None,
      IPMI_HOST = None, IPMI_USER = None, IPMI_PASSWORD = None\<rparr>"

text \<open>A multi-server configuration by the environment value, and no attribute beyond the
  public ones.\<close>

definition env_multi :: environ where
  "env_multi =
     \<lparr>IPMI_CONFIG_PATH = None, config_file = NoFile,
      IPMI_HOSTS = Some ''s1:10.0.0.5:admin:secret,s2:10.0.0.6'',
      IPMI_HOST = None, IPMI_USER = None, IPMI_PASSWORD = None\<rparr>"

definition no_other_attrs :: other_attrs where
  "no_other_attrs self name = None"

text \<open>An event-log dump of three lines: a blank one and two entries.\<close>

definition example_sel :: string where
  "example_sel =
     [CHR 0x0A] @ ''1 | 01/01/2024 | 10:00:00 | Fan 1 | Lower Critical | Asserted''
     @ [CHR 0x0A] @ ''2 | 01/01/2024 | 10:00:05 | Temp | Upper Critical''"

text \<open>The fleet service built from the multi-server environment value above.\<close>

definition example_registry :: pyval where
  "example_registry =
     PDict [(''s1'', example_profile),
            (''s2'', PDict [(''hostname'', PStr ''10.0.0.6''), (''username'', PStr ''admin''),
                            (''password'', PStr ''admin'')])]"

definition example_fleet :: multi_service where
  "example_fleet =
     \<lparr>base_service =
        \<lparr>config_path = ''/etc/ipmi/config.json'', server_id = PStr ''s1'',
         servers_config = example_registry, config = example_profile\<rparr>,
      servers = [''s1'', ''s2'']\<rparr>"

text \<open>
  A configuration file with three servers, the second of which lacks its host name, so
  that every command on it raises.
\<close>

definition env_three :: environ where
  "env_three =
     \<lparr>IPMI_CONFIG_PATH = None,
      config_file = Parsed (PDict [(''servers'', PDict
         [(''s1'', example_profile),
          (''s2'', PDict [(''username'', PStr ''admin''), (''password'', PStr ''secret'')]),
          (''s3'', PDict [(''hostname'', PStr ''10.0.0.7''), (''username'', PStr ''admin''),
                          (''password'', PStr ''secret'')])])]),
      IPMI_HOSTS = None, IPMI_HOST = None, IPMI_USER = None, IPMI_PASSWORD = None\<rparr>"








section \<open>Properties\<close>

subsection \<open>Strings\<close>






subsection \<open>Power state\<close>


subsection \<open>The command runner\<close>

lemmas io_defs = bindIO_def liftE_def returnIO_def catchIO_def bindE_def

lemma str_items_map_PStr: "str_items i (map PStr xs) = Inr xs"
  by (induction xs arbitrary: i) auto

lemma popen_args_map_PStr: "popen_args (map PStr xs) = Inr xs"
  by (simp add: popen_args_def str_items_map_PStr)

lemma build_command_profile:
  assumes "getitem (config self) ''hostname'' = Inr (PStr h)"
    and "getitem (config self) ''username'' = Inr (PStr u)"
    and "getitem (config self) ''password'' = Inr (PStr p)"
  shows "build_command self command =
           Inr (PStr h, map PStr (ipmitool_argv h u p command))"
  using assms
  by (simp add: build_command_def py_join_vals_def ipmitool_argv_def str_items_map_PStr)

lemma getitem_not_timeout: "getitem v k \<noteq> Inl (TimeoutExpired m)"
  by (cases v) (auto split: option.splits)

lemma build_command_not_timeout: "build_command self command \<noteq> Inl (TimeoutExpired m)"
  using getitem_not_timeout
  by (auto simp: build_command_def py_join_vals_def Let_def split: sum.splits prod.splits)

lemma popen_args_not_timeout: "popen_args cmd \<noteq> Inl (TimeoutExpired m)"
  by (auto simp: popen_args_def split: sum.splits prod.splits)

lemma build_command_hostname:
  "build_command self command = Inr (h', cmd) \<Longrightarrow> getitem (config self) ''hostname'' = Inr h'"
  by (auto simp: build_command_def Let_def split: sum.splits)

lemma execute_without_hostname:
  assumes "getitem (config self) ''hostname'' = Inl e"
  shows "execute_ipmi_command resp self command timeout l = (Inl e, l)"
proof -
  from assms have "build_command self command = Inl e"
    by (simp add: build_command_def)
  with assms show ?thesis
    by (simp add: execute_ipmi_command_def io_defs on_exception_def)
qed

lemma not_timeout_message:
  assumes "\<And>m. e \<noteq> TimeoutExpired m"
  shows "(case e of TimeoutExpired _ \<Rightarrow> ''Command timed out'' | _ \<Rightarrow> str_exn e) = str_exn e"
  using assms by (cases e) auto

lemma execute_general:
  assumes "getitem (config self) ''hostname'' = Inr h"
  shows "execute_ipmi_command resp self command timeout l =
    (case build_command self command of
       Inl e \<Rightarrow> (Inr (command_result self h False [] (PStr (str_exn e))), l)
     | Inr (h', cmd) \<Rightarrow>
        (case popen_args cmd of
           Inl e \<Rightarrow> (Inr (command_result self h False [] (PStr (str_exn e))), l)
         | Inr argv \<Rightarrow>
            (case resp l argv timeout of
               Completed rc out err \<Rightarrow>
                 (Inr (if rc = 0 then command_result self h True (py_strip out) PNone
                       else command_result self h False (py_strip out) (PStr (py_strip err))),
                  l @ [(argv, timeout)])
             | Raises e \<Rightarrow>
                 (Inr (command_result self h False []
                    (PStr (case e of TimeoutExpired _ \<Rightarrow> ''Command timed out'' | _ \<Rightarrow> str_exn e))),
                  l @ [(argv, timeout)]))))"
proof (cases "build_command self command")
  case (Inl e)
  then have "\<And>m. e \<noteq> TimeoutExpired m" using build_command_not_timeout by metis
  then have "(case e of TimeoutExpired _ \<Rightarrow> ''Command timed out'' | _ \<Rightarrow> str_exn e) = str_exn e"
    by (rule not_timeout_message)
  with Inl assms show ?thesis
    by (simp add: execute_ipmi_command_def io_defs on_exception_def command_result_def)
next
  case (Inr hc)
  obtain h' cmd where hc: "hc = (h', cmd)" by (cases hc)
  with Inr build_command_hostname assms have hh: "h' = h" by fastforce
  show ?thesis
  proof (cases "popen_args cmd")
    case (Inl e)
    then have "\<And>m. e \<noteq> TimeoutExpired m" using popen_args_not_timeout by metis
    then have "(case e of TimeoutExpired _ \<Rightarrow> ''Command timed out'' | _ \<Rightarrow> str_exn e) = str_exn e"
      by (rule not_timeout_message)
    with Inl Inr hc hh assms show ?thesis
      by (simp add: execute_ipmi_command_def io_defs on_exception_def command_result_def
            subprocess_run_def)
  next
    case (Inr argv)
    with \<open>build_command self command = Inr hc\<close> hc hh assms show ?thesis
      by (simp add: execute_ipmi_command_def io_defs on_exception_def command_result_def
            subprocess_run_def split: proc.splits)
  qed
qed



lemma execute_profile_ex:
  assumes "getitem (config self) ''hostname'' = Inr (PStr h)"
    and "getitem (config self) ''username'' = Inr (PStr u)"
    and "getitem (config self) ''password'' = Inr (PStr p)"
  shows "\<exists>ok out err. execute_ipmi_command resp self command timeout l =
           (Inr (command_result self (PStr h) ok out err),
            l @ [(ipmitool_argv h u p command, timeout)])"
  unfolding execute_general [OF assms(1)] build_command_profile [OF assms]
  by (auto simp: popen_args_map_PStr split: proc.splits)


lemma example_profile_fields:
  "getitem (config example_service) ''hostname'' = Inr (PStr ''10.0.0.5'')"
  "getitem (config example_service) ''username'' = Inr (PStr ''admin'')"
  "getitem (config example_service) ''password'' = Inr (PStr ''secret'')"
  by (simp_all add: example_service_def example_profile_def)



subsection \<open>Parsing operations\<close>

lemma execute_returns:
  assumes "getitem (config self) ''hostname'' = Inr h"
  shows "\<exists>ok out err l'. execute_ipmi_command resp self command timeout l =
           (Inr (command_result self h ok out err), l')"
  unfolding execute_general [OF assms]
  by (auto split: sum.splits option.splits proc.splits prod.splits)

lemma with_power_state_result:
  "with_power_state (command_result self h ok out err) =
     Inr (if ok then PDict [(''success'', PBool True), (''output'', PStr out), (''error'', err),
                            (''server_id'', server_id self), (''hostname'', h),
                            (''power_state'', PStr (power_state_of out))]
          else command_result self h ok out err)"
  by (simp add: with_power_state_def bindE_def command_result_def)

lemma with_sensors_result:
  "with_sensors (command_result self h ok out err) =
     Inr (if ok then PDict [(''success'', PBool True), (''output'', PStr out), (''error'', err),
                            (''server_id'', server_id self), (''hostname'', h),
                            (''sensors'', PList (parse_sensor_output out)),
                            (''sensor_count'', PInt (int (length (parse_sensor_output out))))]
          else command_result self h ok out err)"
  by (simp add: with_sensors_def bindE_def command_result_def Let_def)

lemma with_events_result:
  "with_events (PInt n) (command_result self h ok out err) =
     Inr (if ok then PDict [(''success'', PBool True), (''output'', PStr out), (''error'', err),
                            (''server_id'', server_id self), (''hostname'', h),
                            (''events'', PList (projr (parse_sel_output out (PInt n)))),
                            (''event_count'',
                               PInt (int (length (projr (parse_sel_output out (PInt n))))))]
          else command_result self h ok out err)"
  by (simp add: with_events_def bindE_def command_result_def parse_sel_output_def)

lemma with_boot_device_result:
  "with_boot_device (command_result self h ok out err) =
     Inr (if ok then PDict [(''success'', PBool True), (''output'', PStr out), (''error'', err),
                            (''server_id'', server_id self), (''hostname'', h),
                            (''boot_device'', PDict (parse_boot_device_output out))]
          else command_result self h ok out err)"
  by (simp add: with_boot_device_def bindE_def command_result_def)

lemma parse_op_general:
  assumes h: "getitem (config self) ''hostname'' = Inr h"
    and post: "\<And>ok out err. \<exists>r. post (command_result self h ok out err) = Inr r \<and> P r ok
                 \<and> (ok \<or> r = command_result self h ok out err)"
  shows "\<exists>ok out err l' r.
           execute_ipmi_command resp self cmd t l = (Inr (command_result self h ok out err), l')
         \<and> bindIO (execute_ipmi_command resp self cmd t) (\<lambda>result. liftE (post result)) l
             = (Inr r, l')
         \<and> P r ok \<and> (ok \<or> r = command_result self h ok out err)"
proof -
  obtain ok out err l' where e:
    "execute_ipmi_command resp self cmd t l = (Inr (command_result self h ok out err), l')"
    using execute_returns [OF h] by blast
  obtain r where r: "post (command_result self h ok out err) = Inr r" "P r ok"
    "ok \<or> r = command_result self h ok out err"
    using post by blast
  have "bindIO (execute_ipmi_command resp self cmd t) (\<lambda>result. liftE (post result)) l
          = (Inr r, l')"
    using e r(1) by (simp add: bindIO_def liftE_def)
  with e r show ?thesis by blast
qed

text \<open>
  C10. For a service whose profile has a host name, each parsing operation (power status,
  sensors, event log with an integer limit, boot device) runs its command, which returns a
  command result, and returns a result that contains the derived field (\<open>power_state\<close>;
  \<open>sensors\<close> and \<open>sensor_count\<close>; \<open>events\<close> and \<open>event_count\<close>; \<open>boot_device\<close>)
  exactly when the command result has success true; when it has success false the
  operation returns the command result itself, unchanged.
\<close>

theorem derived_field_iff_success:
  assumes "getitem (config self) ''hostname'' = Inr h"
  shows
   "(\<exists>ok out err l' r.
       execute_ipmi_command resp self ''chassis power status'' 30 l
         = (Inr (command_result self h ok out err), l')
     \<and> get_power_status resp self l = (Inr r, l')
     \<and> has_key r ''power_state'' = ok
     \<and> (ok \<or> r = command_result self h ok out err))
  \<and> (\<exists>ok out err l' r.
       execute_ipmi_command resp self ''sensor'' 45 l
         = (Inr (command_result self h ok out err), l')
     \<and> get_sensor_data resp self l = (Inr r, l')
     \<and> has_key r ''sensors'' = ok \<and> has_key r ''sensor_count'' = ok
     \<and> (ok \<or> r = command_result self h ok out err))
  \<and> (\<exists>ok out err l' r.
       execute_ipmi_command resp self ''sel list'' 30 l
         = (Inr (command_result self h ok out err), l')
     \<and> get_system_event_log resp self (PInt n) l = (Inr r, l')
     \<and> has_key r ''events'' = ok \<and> has_key r ''event_count'' = ok
     \<and> (ok \<or> r = command_result self h ok out err))
  \<and> (\<exists>ok out err l' r.
       execute_ipmi_command resp self ''chassis bootparam get 5'' 30 l
         = (Inr (command_result self h ok out err), l')
     \<and> get_boot_device resp self l = (Inr r, l')
     \<and> has_key r ''boot_device'' = ok
     \<and> (ok \<or> r = command_result self h ok out err))"
proof -
  have 1: "\<And>ok out err. \<exists>r. with_power_state (command_result self h ok out err) = Inr r
             \<and> has_key r ''power_state'' = ok \<and> (ok \<or> r = command_result self h ok out err)"
    by (simp add: with_power_state_result) (simp add: command_result_def)
  have 2: "\<And>ok out err. \<exists>r. with_sensors (command_result self h ok out err) = Inr r
             \<and> (has_key r ''sensors'' = ok \<and> has_key r ''sensor_count'' = ok)
             \<and> (ok \<or> r = command_result self h ok out err)"
    by (simp add: with_sensors_result) (simp add: command_result_def)
  have 3: "\<And>ok out err. \<exists>r. with_events (PInt n) (command_result self h ok out err) = Inr r
             \<and> (has_key r ''events'' = ok \<and> has_key r ''event_count'' = ok)
             \<and> (ok \<or> r = command_result self h ok out err)"
    by (simp add: with_events_result) (simp add: command_result_def)
  have 4: "\<And>ok out err. \<exists>r. with_boot_device (command_result self h ok out err) = Inr r
             \<and> has_key r ''boot_device'' = ok \<and> (ok \<or> r = command_result self h ok out err)"
    by (simp add: with_boot_device_result) (simp add: command_result_def)
  show ?thesis
    unfolding get_power_status_def get_sensor_data_def get_system_event_log_def
      get_boot_device_def
    using parse_op_general [OF assms 1, of resp "''chassis power status''" 30 l]
      parse_op_general [OF assms 2, of resp "''sensor''" 45 l]
      parse_op_general [OF assms 3, of resp "''sel list''" 30 l]
      parse_op_general [OF assms 4, of resp "''chassis bootparam get 5''" 30 l]
    by (simp only: conj_assoc)
qed

lemma example_power_status:
  "execute_ipmi_command responder_ok example_service ''chassis power status'' 30 [] =
     (Inr (command_result example_service (PStr ''10.0.0.5'') True ''Chassis Power is on'' PNone),
      [(ipmitool_argv ''10.0.0.5'' ''admin'' ''secret'' ''chassis power status'', 30)])"
  unfolding execute_general [OF example_profile_fields(1)]
    build_command_profile [OF example_profile_fields]
  by (simp add: popen_args_map_PStr responder_ok_def py_strip_def py_isspace_def)

theorem derived_field_iff_success_witness:
  "\<exists>r l'. get_power_status responder_ok example_service [] = (Inr r, l')
      \<and> has_key r ''power_state''"
  using derived_field_iff_success [OF example_profile_fields(1), of responder_ok "[]" 5]
    example_power_status
  by (auto simp: command_result_def)

subsection \<open>System information\<close>

lemma run_four:
  assumes "getitem (config self) ''hostname'' = Inr (PStr h)"
    and "getitem (config self) ''username'' = Inr (PStr u)"
    and "getitem (config self) ''password'' = Inr (PStr p)"
  shows "\<exists>ok1 out1 err1 ok2 out2 err2 ok3 out3 err3 ok4 out4 err4.
      execute_ipmi_command resp self ''fru'' 30 l =
        (Inr (command_result self (PStr h) ok1 out1 err1), l @ [(ipmitool_argv h u p ''fru'', 30)])
    \<and> execute_ipmi_command resp self ''bmc info'' 30 (l @ [(ipmitool_argv h u p ''fru'', 30)]) =
        (Inr (command_result self (PStr h) ok2 out2 err2),
         l @ [(ipmitool_argv h u p ''fru'', 30), (ipmitool_argv h u p ''bmc info'', 30)])
    \<and> execute_ipmi_command resp self ''chassis status'' 30
          (l @ [(ipmitool_argv h u p ''fru'', 30), (ipmitool_argv h u p ''bmc info'', 30)]) =
        (Inr (command_result self (PStr h) ok3 out3 err3),
         l @ [(ipmitool_argv h u p ''fru'', 30), (ipmitool_argv h u p ''bmc info'', 30),
              (ipmitool_argv h u p ''chassis status'', 30)])
    \<and> execute_ipmi_command resp self ''fru print'' 30
          (l @ [(ipmitool_argv h u p ''fru'', 30), (ipmitool_argv h u p ''bmc info'', 30),
                (ipmitool_argv h u p ''chassis status'', 30)]) =
        (Inr (command_result self (PStr h) ok4 out4 err4),
         l @ [(ipmitool_argv h u p ''fru'', 30), (ipmitool_argv h u p ''bmc info'', 30),
              (ipmitool_argv h u p ''chassis status'', 30), (ipmitool_argv h u p ''fru print'', 30)])"
proof -
  let ?l1 = "l @ [(ipmitool_argv h u p ''fru'', 30)]"
  let ?l2 = "l @ [(ipmitool_argv h u p ''fru'', 30), (ipmitool_argv h u p ''bmc info'', 30)]"
  let ?l3 = "l @ [(ipmitool_argv h u p ''fru'', 30), (ipmitool_argv h u p ''bmc info'', 30),
              (ipmitool_argv h u p ''chassis status'', 30)]"
  from execute_profile_ex [OF assms, of resp "''fru''" 30 l]
  obtain ok1 out1 err1 where 1: "execute_ipmi_command resp self ''fru'' 30 l =
        (Inr (command_result self (PStr h) ok1 out1 err1), ?l1)" by blast
  from execute_profile_ex [OF assms, of resp "''bmc info''" 30 ?l1]
  obtain ok2 out2 err2 where 2: "execute_ipmi_command resp self ''bmc info'' 30 ?l1 =
        (Inr (command_result self (PStr h) ok2 out2 err2), ?l2)" by auto
  from execute_profile_ex [OF assms, of resp "''chassis status''" 30 ?l2]
  obtain ok3 out3 err3 where 3: "execute_ipmi_command resp self ''chassis status'' 30 ?l2 =
        (Inr (command_result self (PStr h) ok3 out3 err3), ?l3)" by auto
  from execute_profile_ex [OF assms, of resp "''fru print''" 30 ?l3]
  obtain ok4 out4 err4 where 4: "execute_ipmi_command resp self ''fru print'' 30 ?l3 =
        (Inr (command_result self (PStr h) ok4 out4 err4),
         ?l3 @ [(ipmitool_argv h u p ''fru print'', 30)])" by auto
  from 1 2 3 4 show ?thesis by auto
qed

text \<open>
  C9. For a service whose profile gives host, user and password as strings, the
  system-information operation starts the tool exactly four times, in the order FRU
  inventory (\<open>fru\<close>), controller information (\<open>bmc info\<close>), chassis status and FRU print,
  and returns a result whose success flag is true exactly when all four sub-results
  report success, and whose \<open>system_info\<close> mapping holds all four sub-results, however
  many of them failed.
\<close>

theorem system_info_all_four:
  assumes "getitem (config self) ''hostname'' = Inr (PStr h)"
    and "getitem (config self) ''username'' = Inr (PStr u)"
    and "getitem (config self) ''password'' = Inr (PStr p)"
  shows "\<exists>r1 r2 r3 r4 l1 l2 l3.
      execute_ipmi_command resp self ''fru'' 30 l = (Inr r1, l1)
    \<and> execute_ipmi_command resp self ''bmc info'' 30 l1 = (Inr r2, l2)
    \<and> execute_ipmi_command resp self ''chassis status'' 30 l2 = (Inr r3, l3)
    \<and> execute_ipmi_command resp self ''fru print'' 30 l3 =
        (Inr r4, l @ [(ipmitool_argv h u p ''fru'', 30), (ipmitool_argv h u p ''bmc info'', 30),
                      (ipmitool_argv h u p ''chassis status'', 30),
                      (ipmitool_argv h u p ''fru print'', 30)])
    \<and> get_system_info resp self l =
        (Inr (PDict [(''success'', PBool (succeeded r1 \<and> succeeded r2 \<and> succeeded r3 \<and> succeeded r4)),
                     (''system_info'', PDict [(''fru'', r1), (''bmc_info'', r2),
                                              (''chassis_status'', r3), (''system_info'', r4)]),
                     (''server_id'', server_id self),
                     (''hostname'', PStr h)]),
         l @ [(ipmitool_argv h u p ''fru'', 30), (ipmitool_argv h u p ''bmc info'', 30),
              (ipmitool_argv h u p ''chassis status'', 30),
              (ipmitool_argv h u p ''fru print'', 30)])"
proof -
  from run_four [OF assms, of resp l]
  obtain ok1 out1 err1 ok2 out2 err2 ok3 out3 err3 ok4 out4 err4 where
    1: "execute_ipmi_command resp self ''fru'' 30 l =
        (Inr (command_result self (PStr h) ok1 out1 err1), l @ [(ipmitool_argv h u p ''fru'', 30)])"
   and 2: "execute_ipmi_command resp self ''bmc info'' 30 (l @ [(ipmitool_argv h u p ''fru'', 30)]) =
        (Inr (command_result self (PStr h) ok2 out2 err2),
         l @ [(ipmitool_argv h u p ''fru'', 30), (ipmitool_argv h u p ''bmc info'', 30)])"
   and 3: "execute_ipmi_command resp self ''chassis status'' 30
          (l @ [(ipmitool_argv h u p ''fru'', 30), (ipmitool_argv h u p ''bmc info'', 30)]) =
        (Inr (command_result self (PStr h) ok3 out3 err3),
         l @ [(ipmitool_argv h u p ''fru'', 30), (ipmitool_argv h u p ''bmc info'', 30),
              (ipmitool_argv h u p ''chassis status'', 30)])"
   and 4: "execute_ipmi_command resp self ''fru print'' 30
          (l @ [(ipmitool_argv h u p ''fru'', 30), (ipmitool_argv h u p ''bmc info'', 30),
                (ipmitool_argv h u p ''chassis status'', 30)]) =
        (Inr (command_result self (PStr h) ok4 out4 err4),
         l @ [(ipmitool_argv h u p ''fru'', 30), (ipmitool_argv h u p ''bmc info'', 30),
              (ipmitool_argv h u p ''chassis status'', 30), (ipmitool_argv h u p ''fru print'', 30)])"
    by blast
  have s: "\<And>ok out err. succeeded (command_result self (PStr h) ok out err) = ok"
    by (simp add: succeeded_def command_result_def)
  have a: "\<And>ok out err. getitem (command_result self (PStr h) ok out err) ''success'' = Inr (PBool ok)"
    by (simp add: command_result_def)
  have g: "get_system_info resp self l =
        (Inr (PDict [(''success'', PBool (ok1 \<and> ok2 \<and> ok3 \<and> ok4)),
                     (''system_info'', PDict [(''fru'', command_result self (PStr h) ok1 out1 err1),
                        (''bmc_info'', command_result self (PStr h) ok2 out2 err2),
                        (''chassis_status'', command_result self (PStr h) ok3 out3 err3),
                        (''system_info'', command_result self (PStr h) ok4 out4 err4)]),
                     (''server_id'', server_id self),
                     (''hostname'', PStr h)]),
         l @ [(ipmitool_argv h u p ''fru'', 30), (ipmitool_argv h u p ''bmc info'', 30),
              (ipmitool_argv h u p ''chassis status'', 30),
              (ipmitool_argv h u p ''fru print'', 30)])"
    using 1 2 3 4 assms(1)
    by (simp add: get_system_info_def system_info_commands_def bindIO_def returnIO_def
          liftE_def bindE_def a)
  show ?thesis
    using 1 2 3 4 g by (simp add: s)
qed

lemma example_bmc_down:
  "execute_ipmi_command responder_bmc_down example_service c 30 l =
     (Inr (if ''bmc'' \<in> set (py_split_ws c)
           then command_result example_service (PStr ''10.0.0.5'') False []
                  (PStr ''Get Device ID command failed'')
           else command_result example_service (PStr ''10.0.0.5'') True ''ok'' PNone),
      l @ [(ipmitool_argv ''10.0.0.5'' ''admin'' ''secret'' c, 30)])"
proof -
  have a: "ipmitool_argv ''10.0.0.5'' ''admin'' ''secret'' c =
     [''ipmitool'', ''-I'', ''lanplus'', ''-H'', ''10.0.0.5'', ''-U'', ''admin'', ''-P'', ''secret'']
       @ py_split_ws c"
    by (simp add: ipmitool_argv_def)
  show ?thesis
    unfolding execute_general [OF example_profile_fields(1)]
      build_command_profile [OF example_profile_fields]
    by (simp add: popen_args_map_PStr)
       (simp add: responder_bmc_down_def a py_strip_def py_isspace_def)
qed

lemma succeeded_command_result: "succeeded (command_result self h ok out err) = ok"
  by (simp add: succeeded_def command_result_def)

theorem system_info_all_four_witness:
  "\<exists>r1 r2 r3 r4 l'.
     get_system_info responder_bmc_down example_service [] =
       (Inr (PDict [(''success'', PBool False),
                    (''system_info'', PDict [(''fru'', r1), (''bmc_info'', r2),
                                             (''chassis_status'', r3), (''system_info'', r4)]),
                    (''server_id'', PStr ''s1''),
                    (''hostname'', PStr ''10.0.0.5'')]), l')
     \<and> succeeded r1 \<and> \<not> succeeded r2 \<and> succeeded r3 \<and> succeeded r4 \<and> length l' = 4"
proof -
  have sid: "server_id example_service = PStr ''s1''"
    by (simp add: example_service_def)
  from system_info_all_four [OF example_profile_fields, of responder_bmc_down "[]"]
  obtain r1 r2 r3 r4 l1 l2 l3 where
    1: "execute_ipmi_command responder_bmc_down example_service ''fru'' 30 [] = (Inr r1, l1)"
    and 2: "execute_ipmi_command responder_bmc_down example_service ''bmc info'' 30 l1 = (Inr r2, l2)"
    and 3: "execute_ipmi_command responder_bmc_down example_service ''chassis status'' 30 l2 = (Inr r3, l3)"
    and 4: "execute_ipmi_command responder_bmc_down example_service ''fru print'' 30 l3 =
        (Inr r4, [] @ [(ipmitool_argv ''10.0.0.5'' ''admin'' ''secret'' ''fru'', 30),
                 (ipmitool_argv ''10.0.0.5'' ''admin'' ''secret'' ''bmc info'', 30),
                 (ipmitool_argv ''10.0.0.5'' ''admin'' ''secret'' ''chassis status'', 30),
                 (ipmitool_argv ''10.0.0.5'' ''admin'' ''secret'' ''fru print'', 30)])"
    and g: "get_system_info responder_bmc_down example_service [] =
        (Inr (PDict [(''success'', PBool (succeeded r1 \<and> succeeded r2 \<and> succeeded r3 \<and> succeeded r4)),
                     (''system_info'', PDict [(''fru'', r1), (''bmc_info'', r2),
                                              (''chassis_status'', r3), (''system_info'', r4)]),
                     (''server_id'', server_id example_service),
                     (''hostname'', PStr ''10.0.0.5'')]),
         [] @ [(ipmitool_argv ''10.0.0.5'' ''admin'' ''secret'' ''fru'', 30),
              (ipmitool_argv ''10.0.0.5'' ''admin'' ''secret'' ''bmc info'', 30),
              (ipmitool_argv ''10.0.0.5'' ''admin'' ''secret'' ''chassis status'', 30),
              (ipmitool_argv ''10.0.0.5'' ''admin'' ''secret'' ''fru print'', 30)])"
    by blast
  have s1: "succeeded r1" using 1 unfolding example_bmc_down
    by (auto simp: py_isspace_def succeeded_command_result)
  have s2: "\<not> succeeded r2" using 2 unfolding example_bmc_down
    by (auto simp: py_isspace_def succeeded_command_result)
  have s3: "succeeded r3" using 3 unfolding example_bmc_down
    by (auto simp: py_isspace_def succeeded_command_result)
  have s4: "succeeded r4" using 4 unfolding example_bmc_down
    by (auto simp: py_isspace_def succeeded_command_result)
  show ?thesis
    using g s1 s2 s3 s4 by (simp add: sid)
qed

subsection \<open>Boot device\<close>

lemma set_boot_device_invalid:
  assumes "py_lower device \<notin> set valid_devices"
    and "getitem (config self) ''hostname'' = Inr h"
  shows "set_boot_device resp self device persistent l =
           (Inr (PDict [(''success'', PBool False),
                        (''error'', PStr (''Invalid boot device '' @ quoted device
                            @ ''. Valid options: '' @ py_join '', '' valid_devices)),
                        (''server_id'', server_id self),
                        (''hostname'', h)]), l)"
  using assms by (simp add: set_boot_device_def liftE_def bindE_def)

text \<open>
  C3. \<open>set_boot_device\<close> checks the lower-cased device name against the fixed set, but
  builds the command from the name as it was given: for the input \<open>PXE\<close>, whose
  lower-casing \<open>pxe\<close> is valid, the tool is started once, with the device argument
  \<open>PXE\<close>, not \<open>pxe\<close>.
\<close>

theorem boot_device_forwarded_as_given:
  "py_lower ''PXE'' = ''pxe''
   \<and> snd (set_boot_device responder_ok example_service ''PXE'' False []) =
     [([''ipmitool'', ''-I'', ''lanplus'', ''-H'', ''10.0.0.5'', ''-U'', ''admin'', ''-P'', ''secret'',
        ''chassis'', ''bootdev'', ''PXE'', ''options=efiboot''], 30)]"
  by code_simp

subsection \<open>Lookup in a single-server registry\<close>

text \<open>
  C4. With a single-server configuration, by the three environment values or by a file
  without a \<open>servers\<close> mapping, the list of available servers is \<open>default\<close> alone, and
  constructing the service for the server id \<open>default\<close> raises \<open>ValueError\<close>: the
  identifier is looked up among the keys of the profile itself. A fleet broadcast
  therefore reports a failure for its only server.
\<close>

theorem default_lookup_fails:
  "map_sum id servers (MultiServerIPMIService_init env_single) = Inr [''default'']
   \<and> IPMIService_init env_single (Some ''default'') =
       Inl (ValueError (''Server '' @ quoted ''default'' @ '' not found in configuration''))
   \<and> map_sum id servers (MultiServerIPMIService_init env_single_file) = Inr [''default'']
   \<and> IPMIService_init env_single_file (Some ''default'') =
       Inl (ValueError (''Server '' @ quoted ''default'' @ '' not found in configuration''))
   \<and> map_sum id (\<lambda>ms. execute_on_all_servers responder_ok env_single no_other_attrs ms
                          ''get_power_status'' [] [])
         (MultiServerIPMIService_init env_single) =
       Inr (Inr (PDict [(''operation'', PStr ''get_power_status''),
                        (''total_servers'', PInt 1),
                        (''successful'', PInt 0),
                        (''results'', PDict [(''default'',
                            PDict [(''success'', PBool False),
                                   (''error'', PStr (''Server '' @ quoted ''default''
                                       @ '' not found in configuration'')),
                                   (''server_id'', PStr ''default'')])])]), [])"
  by code_simp

subsection \<open>The multi-server environment value\<close>

lemma parse_host_config_entry:
  "parse_host_config env acc host_config =
     (case entry_of env host_config of
        None \<Rightarrow> acc
      | Some (k, v) \<Rightarrow> AList.update k v acc)"
proof (cases "split_on CHR '':'' (py_strip host_config)")
  case Nil
  then show ?thesis by (simp add: parse_host_config_def entry_of_def)
next
  case (Cons a as)
  note 1 = this
  show ?thesis
  proof (cases as)
    case Nil
    with 1 show ?thesis by (simp add: parse_host_config_def entry_of_def)
  next
    case (Cons b bs)
    note 2 = this
    show ?thesis
    proof (cases bs)
      case Nil
      with 1 2 show ?thesis by (simp add: parse_host_config_def entry_of_def)
    next
      case (Cons c cs)
      note 3 = this
      show ?thesis
      proof (cases cs)
        case Nil
        with 1 2 3 show ?thesis by (simp add: parse_host_config_def entry_of_def)
      next
        case (Cons d ds)
        with 1 2 3 show ?thesis by (simp add: parse_host_config_def entry_of_def)
      qed
    qed
  qed
qed

lemma foldl_parse_host_config:
  "map_of (foldl (parse_host_config env) acc es) =
     map_of (rev (List.map_filter (entry_of env) es) @ acc)
   \<and> (distinct (map fst acc) \<longrightarrow> distinct (map fst (foldl (parse_host_config env) acc es)))"
proof (induction es arbitrary: acc)
  case Nil
  then show ?case by (simp add: List.map_filter_simps)
next
  case (Cons e es)
  show ?case
  proof (cases "entry_of env e")
    case None
    then show ?thesis
      using Cons.IH [of acc]
      by (simp add: parse_host_config_entry List.map_filter_simps)
  next
    case (Some kv)
    obtain k v where kv: "kv = (k, v)" by (cases kv)
    have m: "map_of (AList.update k v acc) = map_of ([(k, v)] @ acc)"
      by (simp add: update_conv')
    have "map_of (foldl (parse_host_config env) (AList.update k v acc) es) =
            map_of (rev (List.map_filter (entry_of env) es) @ AList.update k v acc)"
      using Cons.IH [of "AList.update k v acc"] by blast
    also have "\<dots> = map_of (rev (List.map_filter (entry_of env) es) @ [(k, v)] @ acc)"
      using m by (simp only: map_of_append)
    finally show ?thesis
      using Some kv Cons.IH [of "AList.update k v acc"]
      by (simp add: parse_host_config_entry List.map_filter_simps distinct_update)
  qed
qed

text \<open>
  C5, as the code has it. For every comma-separated multi-server environment value,
  parsing never raises and the registry has pairwise distinct ids; looking an id up in
  it gives what the last entry for that id contributes, where an entry, stripped of
  surrounding whitespace, contributes: with at least four colon-separated parts, its first
  four parts as id, host name, user name and password; with exactly two parts, id and host
  name with the credentials of the single-server environment values, each \<open>admin\<close> when
  unset; with one or three parts, nothing.
\<close>

theorem multi_server_env_registry:
  "map_of (parse_multi_server_env env ipmi_hosts) =
     map_of (rev (List.map_filter (entry_of env) (split_on CHR '','' ipmi_hosts)))
   \<and> distinct (map fst (parse_multi_server_env env ipmi_hosts))"
  using foldl_parse_host_config [of env "[]" "split_on CHR '','' ipmi_hosts"]
  by (simp add: parse_multi_server_env_def)

text \<open>
  C5 as stated fails: an entry of five parts is not skipped, it yields a registry entry
  from its first four parts.
\<close>

theorem five_part_entry_kept:
  "length (split_on CHR '':'' ''a:h:u:p:x'') = 5
   \<and> parse_multi_server_env env_multi ''a:h:u:p:x'' =
       [(''a'', PDict [(''hostname'', PStr ''h''), (''username'', PStr ''u''),
                       (''password'', PStr ''p'')])]"
  by code_simp

subsection \<open>Event log parsing\<close>

lemma event_of_line_sel:
  "event_of_line line = (if is_sel_line line then [sel_entry line] else [])"
  by (simp add: event_of_line_def is_sel_line_def sel_entry_def field_or_empty_def Let_def)

lemma concat_event_of_line:
  "concat (map event_of_line ls) = map sel_entry (filter is_sel_line ls)"
  by (induction ls) (simp_all add: event_of_line_sel)

text \<open>
  C7, as the code has it. For every event-log text and every limit \<open>n \<ge> 0\<close>, parsing
  never raises and looks at the first \<open>n\<close> raw lines only: its result is the list of the
  entries of exactly those of these lines that are not blank and split at the bars into at
  least four fields, in order; blank lines and lines of fewer fields among the first \<open>n\<close>
  use up the limit and yield nothing.
\<close>

theorem sel_first_lines_only:
  assumes "0 \<le> n"
  shows "parse_sel_output text (PInt n) =
           Inr (map sel_entry (filter is_sel_line (first_lines n text)))"
  using assms
  by (simp add: parse_sel_output_def bindE_def first_lines_def concat_event_of_line)

text \<open>
  C7 as stated fails for a negative limit: with the limit \<open>-1\<close> the slice drops the last
  raw line instead of keeping none, so entries are produced although there are no "first
  \<open>-1\<close> lines".
\<close>

theorem sel_negative_limit:
  "first_lines (- 1) example_sel = []
   \<and> parse_sel_output example_sel (PInt (- 1)) =
       Inr [PDict [(''id'', PStr ''1''), (''timestamp'', PStr ''01/01/2024 10:00:00''),
                   (''sensor'', PStr ''Fan 1''), (''event'', PStr ''Lower Critical''),
                   (''value'', PStr ''Asserted'')]]"
  by code_simp

lemma example_sel_lines:
  "split_on CHR 0x0A example_sel =
     [[], ''1 | 01/01/2024 | 10:00:00 | Fan 1 | Lower Critical | Asserted'',
      ''2 | 01/01/2024 | 10:00:05 | Temp | Upper Critical'']"
  by code_simp

theorem sel_first_lines_only_witness:
  "(0::int) \<le> 2
   \<and> parse_sel_output example_sel (PInt 2) =
       Inr [PDict [(''id'', PStr ''1''), (''timestamp'', PStr ''01/01/2024 10:00:00''),
                   (''sensor'', PStr ''Fan 1''), (''event'', PStr ''Lower Critical''),
                   (''value'', PStr ''Asserted'')]]"
proof -
  have h: "(0::int) \<le> 2" by simp
  have f: "map sel_entry (filter is_sel_line (first_lines 2 example_sel)) =
       [PDict [(''id'', PStr ''1''), (''timestamp'', PStr ''01/01/2024 10:00:00''),
                   (''sensor'', PStr ''Fan 1''), (''event'', PStr ''Lower Critical''),
                   (''value'', PStr ''Asserted'')]]"
    by code_simp
  show ?thesis
    using sel_first_lines_only [OF h, of example_sel] f by simp
qed

subsection \<open>The shape of operation results\<close>

lemma on_exception_shape:
  "on_exception self e = Inr r \<Longrightarrow> \<exists>h ok out err. r = command_result self h ok out err"
  by (auto simp: on_exception_def command_result_def split: sum.splits)










lemma attributed_command_result: "attributed (command_result self h ok out err)"
  by (simp add: attributed_def command_result_def)








subsection \<open>Attribution of results\<close>

lemma execute_returns_attributed:
  assumes "getitem (config self) ''hostname'' = Inr h"
  shows "returns (execute_ipmi_command resp self command timeout) l attributed"
  using execute_returns [OF assms, of resp command timeout l]
  by (auto simp: returns_def attributed_command_result)

lemma parse_op_returns:
  assumes h: "getitem (config self) ''hostname'' = Inr h"
    and post: "\<And>ok out err. \<exists>r. post (command_result self h ok out err) = Inr r \<and> attributed r"
  shows "returns (bindIO (execute_ipmi_command resp self cmd t) (\<lambda>result. liftE (post result)))
           l attributed"
proof -
  obtain ok out err l' where e:
    "execute_ipmi_command resp self cmd t l = (Inr (command_result self h ok out err), l')"
    using execute_returns [OF h] by blast
  obtain r where r: "post (command_result self h ok out err) = Inr r" "attributed r"
    using post by blast
  have "bindIO (execute_ipmi_command resp self cmd t) (\<lambda>result. liftE (post result)) l
          = (Inr r, l')"
    using e r(1) by (simp add: bindIO_def liftE_def)
  with r(2) show ?thesis unfolding returns_def by blast
qed

lemma get_system_info_returns:
  assumes h: "getitem (config self) ''hostname'' = Inr h"
  shows "returns (get_system_info resp self) l attributed"
proof -
  obtain ok1 out1 err1 l1 where 1:
    "execute_ipmi_command resp self ''fru'' 30 l = (Inr (command_result self h ok1 out1 err1), l1)"
    using execute_returns [OF h] by blast
  obtain ok2 out2 err2 l2 where 2:
    "execute_ipmi_command resp self ''bmc info'' 30 l1 = (Inr (command_result self h ok2 out2 err2), l2)"
    using execute_returns [OF h] by blast
  obtain ok3 out3 err3 l3 where 3:
    "execute_ipmi_command resp self ''chassis status'' 30 l2 = (Inr (command_result self h ok3 out3 err3), l3)"
    using execute_returns [OF h] by blast
  obtain ok4 out4 err4 l4 where 4:
    "execute_ipmi_command resp self ''fru print'' 30 l3 = (Inr (command_result self h ok4 out4 err4), l4)"
    using execute_returns [OF h] by blast
  have a: "\<And>ok out err. getitem (command_result self h ok out err) ''success'' = Inr (PBool ok)"
    by (simp add: command_result_def)
  have "get_system_info resp self l =
        (Inr (PDict [(''success'', PBool (ok1 \<and> ok2 \<and> ok3 \<and> ok4)),
                     (''system_info'', PDict [(''fru'', command_result self h ok1 out1 err1),
                        (''bmc_info'', command_result self h ok2 out2 err2),
                        (''chassis_status'', command_result self h ok3 out3 err3),
                        (''system_info'', command_result self h ok4 out4 err4)]),
                     (''server_id'', server_id self),
                     (''hostname'', h)]), l4)"
    using 1 2 3 4 h
    by (simp add: get_system_info_def system_info_commands_def bindIO_def returnIO_def
          liftE_def bindE_def a)
  then show ?thesis
    by (simp add: returns_def attributed_def)
qed

lemma set_boot_device_returns:
  assumes h: "getitem (config self) ''hostname'' = Inr h"
  shows "returns (set_boot_device resp self device persistent) l attributed"
proof (cases "py_lower device \<in> set valid_devices")
  case True
  then show ?thesis
    using execute_returns_attributed [OF h]
    by (simp add: set_boot_device_def Let_def)
next
  case False
  then show ?thesis
    using h by (simp add: set_boot_device_def liftE_def bindE_def returns_def attributed_def)
qed

lemma check_health_returns:
  assumes h: "getitem (config self) ''hostname'' = Inr h"
  shows "returns (check_health resp self) l health_attributed"
proof -
  obtain ok out err l1 where 1:
    "execute_ipmi_command resp self ''chassis status'' 30 l
       = (Inr (command_result self h ok out err), l1)"
    using execute_returns [OF h] by blast
  show ?thesis
  proof (cases ok)
    case False
    have "check_health resp self l =
            (Inr (PDict [(''success'', PBool False), (''error'', err),
                         (''server_id'', server_id self), (''hostname'', h)]), l1)"
      using 1 False h
      by (simp add: check_health_def catchIO_def bindIO_def liftE_def bindE_def
            command_result_def health_failure_def)
    then show ?thesis
      by (simp add: returns_def health_attributed_def succeeded_def attributed_def)
  next
    case True
    obtain ok2 out2 err2 l2 where 2:
      "execute_ipmi_command resp self ''chassis power status'' 30 l1
         = (Inr (command_result self h ok2 out2 err2), l2)"
      using execute_returns [OF h] by blast
    have 3: "get_power_status resp self l1 =
      (Inr (if ok2 then PDict [(''success'', PBool True), (''output'', PStr out2), (''error'', err2),
                            (''server_id'', server_id self), (''hostname'', h),
                            (''power_state'', PStr (power_state_of out2))]
          else command_result self h ok2 out2 err2), l2)"
      using 2 by (simp add: get_power_status_def bindIO_def liftE_def with_power_state_result)
    have "check_health resp self l =
            (Inr (PDict [(''success'', PBool True),
                         (''details'', PDict ([(''ipmi_connection'', PStr ''healthy''),
                            (''chassis_status'', PStr out),
                            (''server_id'', server_id self),
                            (''hostname'', h)]
                            @ (if ok2 then [(''power_status'', PStr (power_state_of out2))] else [])))]),
             l2)"
      using 1 True h 3
      by (simp add: check_health_def catchIO_def bindIO_def liftE_def bindE_def returnIO_def
            command_result_def health_details_def with_power_status_def)
    then show ?thesis
      by (simp add: returns_def health_attributed_def succeeded_def attributed_def)
  qed
qed

text \<open>
  C1, as the code has it. For a service whose profile has a host name, every operation of
  the per-server API (the event log read with an integer limit, the boot device set with a
  string as device name) returns a result, and the results of power control (on, off,
  reset, status), system information, sensors, event log (read, clear, info) and boot
  device (set, get) contain both a \<open>server_id\<close> and a \<open>hostname\<close> field; so does a failed
  health check, while a successful health check is the mapping of \<open>success\<close> and
  \<open>details\<close> alone and carries the two fields inside its \<open>details\<close>. The per-server entry
  that a fleet broadcast synthesizes for a caught exception, or for an operation name the
  service has no attribute for, is the mapping of \<open>success\<close> (false), \<open>error\<close> (the message)
  and \<open>server_id\<close> alone: it has a \<open>server_id\<close> field and no \<open>hostname\<close> field.
\<close>

theorem results_attributed:
  assumes h: "getitem (config self) ''hostname'' = Inr h"
  shows "returns (power_on resp self) l attributed
    \<and> returns (power_off resp self force) l attributed
    \<and> returns (power_reset resp self) l attributed
    \<and> returns (get_power_status resp self) l attributed
    \<and> returns (get_system_info resp self) l attributed
    \<and> returns (get_sensor_data resp self) l attributed
    \<and> returns (get_system_event_log resp self (PInt n)) l attributed
    \<and> returns (clear_system_event_log resp self) l attributed
    \<and> returns (get_sel_info resp self) l attributed
    \<and> returns (set_boot_device resp self device persistent) l attributed
    \<and> returns (get_boot_device resp self) l attributed
    \<and> returns (check_health resp self) l health_attributed
    \<and> dispatch_failed sid e =
          PDict [(''success'', PBool False), (''error'', PStr (str_exn e)),
                 (''server_id'', PStr sid)]
    \<and> has_key (dispatch_failed sid e) ''server_id''
    \<and> \<not> has_key (dispatch_failed sid e) ''hostname''
    \<and> (IPMIService_init env (Some sid) = Inr svc \<and> find_attr resp other svc operation = None
        \<longrightarrow> dispatch_one resp env other operation kw sid l =
              (Inr (PDict [(''success'', PBool False),
                           (''error'', PStr (''Operation '' @ quoted operation @ '' not supported'')),
                           (''server_id'', PStr sid)]), l)
            \<and> returns (dispatch_one resp env other operation kw sid) l
                 (\<lambda>r. has_key r ''server_id'' \<and> \<not> has_key r ''hostname''))"
proof -
  have 1: "\<And>ok out err. \<exists>r. with_power_state (command_result self h ok out err) = Inr r
             \<and> attributed r"
    by (simp add: with_power_state_result) (simp add: command_result_def attributed_def)
  have 2: "\<And>ok out err. \<exists>r. with_sensors (command_result self h ok out err) = Inr r
             \<and> attributed r"
    by (simp add: with_sensors_result) (simp add: command_result_def attributed_def)
  have 3: "\<And>ok out err. \<exists>r. with_events (PInt n) (command_result self h ok out err) = Inr r
             \<and> attributed r"
    by (simp add: with_events_result) (simp add: command_result_def attributed_def)
  have 4: "\<And>ok out err. \<exists>r. with_boot_device (command_result self h ok out err) = Inr r
             \<and> attributed r"
    by (simp add: with_boot_device_result) (simp add: command_result_def attributed_def)
  have d: "IPMIService_init env (Some sid) = Inr svc \<and> find_attr resp other svc operation = None
        \<longrightarrow> dispatch_one resp env other operation kw sid l =
              (Inr (PDict [(''success'', PBool False),
                           (''error'', PStr (''Operation '' @ quoted operation @ '' not supported'')),
                           (''server_id'', PStr sid)]), l)
            \<and> returns (dispatch_one resp env other operation kw sid) l
                 (\<lambda>r. has_key r ''server_id'' \<and> \<not> has_key r ''hostname'')"
    by (simp add: dispatch_one_def bindIO_def liftE_def returnIO_def returns_def)
  show ?thesis
    using execute_returns_attributed [OF h]
      parse_op_returns [where post = with_power_state, OF h 1]
      parse_op_returns [where post = with_sensors, OF h 2]
      parse_op_returns [where post = "with_events (PInt n)", OF h 3]
      parse_op_returns [where post = with_boot_device, OF h 4] get_system_info_returns [OF h]
      set_boot_device_returns [OF h] check_health_returns [OF h] d
    by (simp add: power_on_def power_off_def power_reset_def get_power_status_def
          get_sensor_data_def get_system_event_log_def clear_system_event_log_def
          get_sel_info_def get_boot_device_def dispatch_failed_def)
qed

text \<open>
  C1 as stated fails. The entry that a fleet broadcast synthesizes for an operation name
  the service does not have holds \<open>success\<close>, \<open>error\<close> and \<open>server_id\<close>, and no
  \<open>hostname\<close>; so does the entry synthesized for a caught exception, here that of the
  second of three servers, whose profile lacks the host name; and the result of a
  successful health check holds \<open>success\<close> and \<open>details\<close> only, with the server id and
  host name inside the details. And setting the boot device does not return a result at
  all when the device name is not a string: \<open>device.lower()\<close> raises.
\<close>

theorem synthesized_entry_lacks_hostname:
  "MultiServerIPMIService_init env_multi = Inr example_fleet
   \<and> fst (execute_on_all_servers responder_ok env_multi no_other_attrs example_fleet ''reboot'' [] [])
     = Inr (PDict [(''operation'', PStr ''reboot''),
                   (''total_servers'', PInt 2),
                   (''successful'', PInt 0),
                   (''results'', PDict
                      [(''s1'', PDict [(''success'', PBool False),
                                       (''error'', PStr (''Operation '' @ quoted ''reboot'' @ '' not supported'')),
                                       (''server_id'', PStr ''s1'')]),
                       (''s2'', PDict [(''success'', PBool False),
                                       (''error'', PStr (''Operation '' @ quoted ''reboot'' @ '' not supported'')),
                                       (''server_id'', PStr ''s2'')])])])
   \<and> fst (dispatch_one responder_ok env_three no_other_attrs ''power_on'' [] ''s2'' [])
     = Inl (KeyError ''hostname'')
   \<and> dispatch_failed ''s2'' (KeyError ''hostname'')
     = PDict [(''success'', PBool False), (''error'', PStr (quoted ''hostname'')),
              (''server_id'', PStr ''s2'')]
   \<and> fst (check_health responder_ok example_service [])
     = Inr (PDict [(''success'', PBool True),
                   (''details'', PDict [(''ipmi_connection'', PStr ''healthy''),
                                        (''chassis_status'', PStr ''Chassis Power is on''),
                                        (''server_id'', PStr ''s1''),
                                        (''hostname'', PStr ''10.0.0.5''),
                                        (''power_status'', PStr ''on'')])])
   \<and> fst (call_set_boot_device responder_ok example_service [(''device'', PInt 1)] [])
     = Inl (AttributeError (quoted ''int'' @ '' object has no attribute '' @ quoted ''lower''))"
  by code_simp

lemma example_fleet_s1:
  "IPMIService_init env_multi (Some ''s1'') = Inr (base_service example_fleet)"
  by code_simp

lemma reboot_not_found:
  "find_attr responder_ok no_other_attrs (base_service example_fleet) ''reboot'' = None"
  by (simp add: find_attr_def public_methods_def public_fields_def)

theorem results_attributed_witness:
  "getitem (config example_service) ''hostname'' = Inr (PStr ''10.0.0.5'')
   \<and> returns (power_on responder_ok example_service) [] attributed
   \<and> returns (set_boot_device responder_ok example_service ''pxe'' False) [] attributed
   \<and> returns (check_health responder_ok example_service) [] health_attributed
   \<and> IPMIService_init env_multi (Some ''s1'') = Inr (base_service example_fleet)
   \<and> find_attr responder_ok no_other_attrs (base_service example_fleet) ''reboot'' = None
   \<and> dispatch_one responder_ok env_multi no_other_attrs ''reboot'' [] ''s1'' [] =
       (Inr (PDict [(''success'', PBool False),
                    (''error'', PStr (''Operation '' @ quoted ''reboot'' @ '' not supported'')),
                    (''server_id'', PStr ''s1'')]), [])"
  using results_attributed [OF example_profile_fields(1), of responder_ok "[]" False 50
      "''pxe''" False "''s1''" "KeyError ''hostname''" env_multi "base_service example_fleet"
      no_other_attrs "''reboot''" "[]"]
    example_fleet_s1 reboot_not_found example_profile_fields(1)
  by simp

subsection \<open>Fleet broadcast\<close>






























lemma flagged_is_result: "is_result r \<Longrightarrow> flagged r = succeeded r"
  by (auto simp: is_result_def flagged_def succeeded_def)









end
